theory Spec2Isabelle
  imports Complex_Main
begin

section \<open>Data model of the embedding and language-model sidecar\<close>

text \<open>
  The program is \<^verbatim>\<open>embedding_sidecar.py\<close>: two module-level cache slots
  (\<^verbatim>\<open>_embed_model\<close>, \<^verbatim>\<open>_llm_model\<close>), two accessors that fill them on
  first use, and three request handlers. The sentence-embedding model, the language
  model, its tokenizer and the tensor library are external; every call into them is a
  field of the record \<open>lib\<close> below, acting on an external world \<open>'w\<close> (file system,
  network, random generator) and either raising or returning a value.
\<close>

subsection \<open>Python values\<close>

text \<open>
  A Python \<^verbatim>\<open>str\<close> is a sequence of Unicode code points; it is modelled as a list of
  code points, so that \<^verbatim>\<open>str.strip()\<close> sees the same characters as the source does.
  Identifiers of the program (dictionary keys, role names, model names) are kept as
  HOL strings.
\<close>

type_synonym pystr = "nat list"

definition py :: "string \<Rightarrow> pystr" where
  "py s = map of_char s"

text \<open>
  An exception carries the text that \<^verbatim>\<open>str(e)\<close> yields. The handlers of the source
  are \<^verbatim>\<open>except Exception\<close>: they see instances of \<^verbatim>\<open>Exception\<close> only, not the
  other subclasses of \<^verbatim>\<open>BaseException\<close> (\<^verbatim>\<open>KeyboardInterrupt\<close>, \<^verbatim>\<open>SystemExit\<close>).
\<close>

datatype pyexc = PyException pystr | PyBaseException pystr

fun is_Exception :: "pyexc \<Rightarrow> bool" where
  "is_Exception (PyException _) = True"
| "is_Exception (PyBaseException _) = False"

fun str_of :: "pyexc \<Rightarrow> pystr" where
  "str_of (PyException m) = m"
| "str_of (PyBaseException m) = m"

definition IndexError :: pyexc where
  "IndexError = PyException (py ''list index out of range'')"

text \<open>JSON values, as request bodies and response payloads; \<open>'f\<close> is the type of floats.\<close>

datatype 'f json =
    JNull
  | JBool bool
  | JInt int
  | JFloat 'f
  | JStr pystr
  | JArr "'f json list"
  | JObj "(string \<times> 'f json) list"

subsection \<open>The request models (lines 45 to 57)\<close>

record EmbedRequest =
  text' :: pystr

record QueryRequest =
  system :: pystr
  user :: pystr
  max_tokens :: int

subsection \<open>The external libraries\<close>

text \<open>The keyword arguments that \<^verbatim>\<open>query\<close> adds to \<^verbatim>\<open>model.generate\<close>.\<close>

record generate_kwargs =
  max_new_tokens :: int
  temperature :: real

text \<open>The dictionary stored in \<^verbatim>\<open>_llm_model\<close>, with its two keys.\<close>

record ('m, 't) llm_data =
  model :: 'm
  tokenizer :: 't

text \<open>
  \<open>'e\<close> is the handle of the embedding model, \<open>'m\<close> of the language model, \<open>'t\<close> of the
  tokenizer, \<open>'i\<close> the tokenizer's output (\<^verbatim>\<open>model_inputs\<close>); token ids are integers.
  An \<^verbatim>\<open>import\<close> returns the exception it raised, if any.
\<close>

record ('w, 'e, 'm, 't, 'i, 'f) lib =
  import_sentence_transformers :: "'w \<Rightarrow> pyexc option \<times> 'w"
  SentenceTransformer :: "string \<Rightarrow> 'w \<Rightarrow> (pyexc + 'e) \<times> 'w"
  import_transformers :: "'w \<Rightarrow> pyexc option \<times> 'w"
  AutoModelForCausalLM_from_pretrained :: "string \<Rightarrow> string \<Rightarrow> string \<Rightarrow> 'w \<Rightarrow> (pyexc + 'm) \<times> 'w"
  AutoTokenizer_from_pretrained :: "string \<Rightarrow> 'w \<Rightarrow> (pyexc + 't) \<times> 'w"
  encode :: "'e \<Rightarrow> pystr list \<Rightarrow> 'w \<Rightarrow> (pyexc + 'f list list) \<times> 'w"
  import_torch :: "'w \<Rightarrow> pyexc option \<times> 'w"
  apply_chat_template :: "'t \<Rightarrow> (string \<times> pystr) list \<Rightarrow> bool \<Rightarrow> bool \<Rightarrow> 'w \<Rightarrow> (pyexc + pystr) \<times> 'w"
  tokenizer_call :: "'t \<Rightarrow> pystr list \<Rightarrow> 'w \<Rightarrow> (pyexc + 'i) \<times> 'w"
  input_ids :: "'i \<Rightarrow> int list list"
  generate :: "'m \<Rightarrow> 'i \<Rightarrow> generate_kwargs \<Rightarrow> 'w \<Rightarrow> (pyexc + int list list) \<times> 'w"
  batch_decode :: "'t \<Rightarrow> int list list \<Rightarrow> bool \<Rightarrow> 'w \<Rightarrow> (pyexc + pystr list) \<times> 'w"

subsection \<open>The process state\<close>

text \<open>
  The two globals of lines 9 and 10 (\<open>None\<close> is Python's \<^verbatim>\<open>None\<close>), the lines printed
  so far, and the external world.
\<close>

record ('w, 'e, 'm, 't) state =
  embed_model :: "'e option"
  llm_model :: "('m, 't) llm_data option"
  stdout :: "pystr list"
  world :: 'w

definition initial :: "'w \<Rightarrow> ('w, 'e, 'm, 't) state" where
  "initial w = \<lparr>embed_model = None, llm_model = None, stdout = [], world = w\<rparr>"

subsection \<open>Statements that may raise\<close>

text \<open>
  A statement maps the state to a result (\<open>Inl\<close> the exception raised) and the state it
  leaves. \<open>bind\<close> is sequencing: an exception skips the rest.
\<close>

definition return :: "'a \<Rightarrow> 's \<Rightarrow> (pyexc + 'a) \<times> 's" where
  "return x s = (Inr x, s)"

definition raise :: "pyexc \<Rightarrow> 's \<Rightarrow> (pyexc + 'a) \<times> 's" where
  "raise e s = (Inl e, s)"

definition bind :: "('s \<Rightarrow> (pyexc + 'a) \<times> 's) \<Rightarrow> ('a \<Rightarrow> 's \<Rightarrow> (pyexc + 'b) \<times> 's) \<Rightarrow> 's \<Rightarrow> (pyexc + 'b) \<times> 's" where
  "bind f g s = (case f s of (Inl e, s') \<Rightarrow> (Inl e, s') | (Inr x, s') \<Rightarrow> g x s')"

text \<open>A call into an external library acts on the world component only.\<close>

definition ext :: "('w \<Rightarrow> (pyexc + 'a) \<times> 'w) \<Rightarrow> ('w, 'e, 'm, 't) state \<Rightarrow> (pyexc + 'a) \<times> ('w, 'e, 'm, 't) state" where
  "ext f s = (case f (world s) of (r, w') \<Rightarrow> (r, s\<lparr>world := w'\<rparr>))"

definition import :: "('w \<Rightarrow> pyexc option \<times> 'w) \<Rightarrow> ('w, 'e, 'm, 't) state \<Rightarrow> (pyexc + unit) \<times> ('w, 'e, 'm, 't) state" where
  "import f s = (case f (world s) of
                   (None, w') \<Rightarrow> (Inr (), s\<lparr>world := w'\<rparr>)
                 | (Some e, w') \<Rightarrow> (Inl e, s\<lparr>world := w'\<rparr>))"

definition print :: "pystr \<Rightarrow> ('w, 'e, 'm, 't) state \<Rightarrow> (pyexc + unit) \<times> ('w, 'e, 'm, 't) state" where
  "print line s = (Inr (), s\<lparr>stdout := stdout s @ [line]\<rparr>)"

text \<open>
  \<^verbatim>\<open>try: body except Exception as e: print(f"<prefix>{e}"); raise\<close>: an instance
  of \<^verbatim>\<open>Exception\<close> is logged and raised again, any other exception passes untouched.
\<close>

definition try_log_reraise :: "(('w, 'e, 'm, 't) state \<Rightarrow> (pyexc + 'a) \<times> ('w, 'e, 'm, 't) state) \<Rightarrow> string \<Rightarrow> ('w, 'e, 'm, 't) state \<Rightarrow> (pyexc + 'a) \<times> ('w, 'e, 'm, 't) state" where
  "try_log_reraise body prefix s =
     (case body s of
        (Inr x, s') \<Rightarrow> (Inr x, s')
      | (Inl e, s') \<Rightarrow>
          (if is_Exception e
           then (Inl e, s'\<lparr>stdout := stdout s' @ [py prefix @ str_of e]\<rparr>)
           else (Inl e, s')))"

section \<open>The model loader (lines 12 to 41)\<close>

text \<open>Lines 16 and 17: the body of the \<^verbatim>\<open>try\<close> in \<^verbatim>\<open>get_embed_model\<close>.\<close>

definition embed_try_body :: "('w, 'e, 'm, 't, 'i, 'f) lib \<Rightarrow> ('w, 'e, 'm, 't) state \<Rightarrow> (pyexc + unit) \<times> ('w, 'e, 'm, 't) state" where
  "embed_try_body L =
     bind (import (import_sentence_transformers L)) (\<lambda>_.
     bind (ext (SentenceTransformer L ''sentence-transformers/all-MiniLM-L6-v2'')) (\<lambda>m s.
       (Inr (), s\<lparr>embed_model := Some m\<rparr>)))"

definition get_embed_model :: "('w, 'e, 'm, 't, 'i, 'f) lib \<Rightarrow> ('w, 'e, 'm, 't) state \<Rightarrow> (pyexc + 'e option) \<times> ('w, 'e, 'm, 't) state" where
  "get_embed_model L s =
     (if embed_model s = None
      then bind (try_log_reraise (embed_try_body L) ''Error loading embedding model: '')
             (\<lambda>_ s'. (Inr (embed_model s'), s')) s
      else (Inr (embed_model s), s))"

text \<open>Lines 27 to 37: the body of the \<^verbatim>\<open>try\<close> in \<^verbatim>\<open>get_llm_model\<close>.\<close>

definition llm_try_body :: "('w, 'e, 'm, 't, 'i, 'f) lib \<Rightarrow> ('w, 'e, 'm, 't) state \<Rightarrow> (pyexc + unit) \<times> ('w, 'e, 'm, 't) state" where
  "llm_try_body L =
     bind (import (import_transformers L)) (\<lambda>_.
     bind (print (py ''Loading Qwen model (this may take a moment)...'')) (\<lambda>_.
     bind (ext (AutoModelForCausalLM_from_pretrained L ''Qwen/Qwen2.5-1.5B-Instruct'' ''cpu'' ''auto'')) (\<lambda>m.
     bind (ext (AutoTokenizer_from_pretrained L ''Qwen/Qwen2.5-1.5B-Instruct'')) (\<lambda>t.
     bind (\<lambda>s. (Inr (), s\<lparr>llm_model := Some \<lparr>model = m, tokenizer = t\<rparr>\<rparr>)) (\<lambda>_.
     print (py ''Qwen model loaded successfully''))))))"

definition get_llm_model :: "('w, 'e, 'm, 't, 'i, 'f) lib \<Rightarrow> ('w, 'e, 'm, 't) state \<Rightarrow> (pyexc + ('m, 't) llm_data option) \<times> ('w, 'e, 'm, 't) state" where
  "get_llm_model L s =
     (if llm_model s = None
      then bind (try_log_reraise (llm_try_body L) ''Error loading LLM model: '')
             (\<lambda>_ s'. (Inr (llm_model s'), s')) s
      else (Inr (llm_model s), s))"

section \<open>The handlers (lines 59 to 102)\<close>

definition AttributeError :: pyexc where
  "AttributeError = PyException (py ''NoneType object has no attribute'')"

text \<open>\<^verbatim>\<open>xs[0]\<close> raises on an empty list.\<close>

definition first :: "'a list \<Rightarrow> 's \<Rightarrow> (pyexc + 'a) \<times> 's" where
  "first xs = (case xs of [] \<Rightarrow> raise IndexError | x # _ \<Rightarrow> return x)"

subsection \<open>\<^verbatim>\<open>embed\<close>\<close>

definition embed :: "('w, 'e, 'm, 't, 'i, 'f) lib \<Rightarrow> EmbedRequest \<Rightarrow> ('w, 'e, 'm, 't) state \<Rightarrow> (pyexc + 'f json) \<times> ('w, 'e, 'm, 't) state" where
  "embed L req =
     bind (get_embed_model L) (\<lambda>model.
     case model of
       None \<Rightarrow> raise AttributeError
     | Some m \<Rightarrow>
         bind (ext (encode L m [text' req])) (\<lambda>rows.
         bind (first rows) (\<lambda>vec.
         return (JObj [(''embedding'', JArr (map JFloat vec))]))))"

subsection \<open>\<^verbatim>\<open>query\<close>\<close>

text \<open>
  The characters that \<^verbatim>\<open>str.strip()\<close> without an argument removes: those for which
  \<^verbatim>\<open>str.isspace\<close> holds, by code point.
\<close>

definition py_isspace :: "nat \<Rightarrow> bool" where
  "py_isspace c \<longleftrightarrow>
     (9 \<le> c \<and> c \<le> 13) \<or> (28 \<le> c \<and> c \<le> 32) \<or> c = 133 \<or> c = 160 \<or> c = 5760 \<or>
     (8192 \<le> c \<and> c \<le> 8202) \<or> c = 8232 \<or> c = 8233 \<or> c = 8239 \<or> c = 8287 \<or> c = 12288"

definition strip :: "pystr \<Rightarrow> pystr" where
  "strip s = rev (dropWhile py_isspace (rev (dropWhile py_isspace s)))"

text \<open>
  Line 95:
  \<^verbatim>\<open>[output_ids[len(input_ids):] for input_ids, output_ids in zip(model_inputs.input_ids, generated_ids)]\<close>.
  \<^verbatim>\<open>zip\<close> stops at the shorter list, and a slice that starts beyond the end is empty.
\<close>

definition remove_input_prompt :: "int list list \<Rightarrow> int list list \<Rightarrow> int list list" where
  "remove_input_prompt ins outs = map (\<lambda>(input_ids, output_ids). drop (length input_ids) output_ids) (zip ins outs)"

text \<open>Lines 73 to 76.\<close>

definition messages :: "QueryRequest \<Rightarrow> (string \<times> pystr) list" where
  "messages req = [(''system'', system req), (''user'', user req)]"

text \<open>Lines 90 and 91: what \<^verbatim>\<open>query\<close> passes to \<^verbatim>\<open>generate\<close> besides the model inputs.\<close>

definition query_kwargs :: "QueryRequest \<Rightarrow> generate_kwargs" where
  "query_kwargs req = \<lparr>max_new_tokens = max_tokens req, temperature = 2 / 10\<rparr>"

definition query :: "('w, 'e, 'm, 't, 'i, 'f) lib \<Rightarrow> QueryRequest \<Rightarrow> ('w, 'e, 'm, 't) state \<Rightarrow> (pyexc + 'f json) \<times> ('w, 'e, 'm, 't) state" where
  "query L req =
     bind (import (import_torch L)) (\<lambda>_.
     bind (get_llm_model L) (\<lambda>llm_data.
     case llm_data of
       None \<Rightarrow> raise AttributeError
     | Some d \<Rightarrow>
         bind (ext (apply_chat_template L (tokenizer d) (messages req) False True)) (\<lambda>text.
         bind (ext (tokenizer_call L (tokenizer d) [text])) (\<lambda>model_inputs.
         bind (ext (generate L (model d) model_inputs (query_kwargs req))) (\<lambda>generated_ids.
         bind (ext (batch_decode L (tokenizer d)
                 (remove_input_prompt (input_ids L model_inputs) generated_ids) True)) (\<lambda>decoded.
         bind (first decoded) (\<lambda>answer.
         return (JObj [(''answer'', JStr (strip answer))]))))))))"

subsection \<open>\<^verbatim>\<open>health\<close>\<close>

definition health :: "'s \<Rightarrow> (pyexc + 'f json) \<times> 's" where
  "health = return (JObj [(''status'', JStr (py ''ok''))])"

section \<open>The HTTP interface\<close>

text \<open>
  Modelled from the spec: the request validation and the status codes of the web
  framework, which the source only declares (the three request model classes of lines
  45 to 57 and the route decorators of lines 59, 65 and 100) and whose code is not part
  of the repository. A body is validated against the fields of the request model before
  the handler runs: it must be a JSON object; a field with no default is required; a
  field with a default takes the default when the key is absent; a JSON string for a
  \<^verbatim>\<open>str\<close> field and a JSON integer for an \<^verbatim>\<open>int\<close> field are taken as they are.
  What the framework does with a value of another JSON kind (its coercions) is left
  open as the parameter \<open>coercions\<close>. A body that fails the validation is answered with
  status 422 and the handler is not called; an exception that leaves the handler is
  answered with status 500; a returned payload is answered with status 200.
\<close>

datatype verr = NotAnObject | Missing string | WrongType string

record 'f coercions =
  lax_str :: "'f json \<Rightarrow> pystr option"
  lax_int :: "'f json \<Rightarrow> int option"

definition as_str :: "'f coercions \<Rightarrow> 'f json \<Rightarrow> pystr option" where
  "as_str C j = (case j of JStr s \<Rightarrow> Some s | _ \<Rightarrow> lax_str C j)"

definition as_int :: "'f coercions \<Rightarrow> 'f json \<Rightarrow> int option" where
  "as_int C j = (case j of JInt n \<Rightarrow> Some n | _ \<Rightarrow> lax_int C j)"

text \<open>A key that occurs more than once in a JSON object has the value of its last occurrence.\<close>

definition lookup :: "(string \<times> 'f json) list \<Rightarrow> string \<Rightarrow> 'f json option" where
  "lookup obj name = map_of (rev obj) name"

definition field :: "('f json \<Rightarrow> 'a option) \<Rightarrow> 'a option \<Rightarrow> (string \<times> 'f json) list \<Rightarrow> string \<Rightarrow> verr + 'a" where
  "field conv dflt obj name =
     (case lookup obj name of
        None \<Rightarrow> (case dflt of None \<Rightarrow> Inl (Missing name) | Some d \<Rightarrow> Inr d)
      | Some j \<Rightarrow> (case conv j of None \<Rightarrow> Inl (WrongType name) | Some v \<Rightarrow> Inr v))"

text \<open>\<^verbatim>\<open>class EmbedRequest(BaseModel): text: str\<close>\<close>

definition parse_EmbedRequest :: "'f coercions \<Rightarrow> 'f json \<Rightarrow> verr + EmbedRequest" where
  "parse_EmbedRequest C body =
     (case body of
        JObj obj \<Rightarrow>
          (case field (as_str C) None obj ''text'' of
             Inl v \<Rightarrow> Inl v
           | Inr t \<Rightarrow> Inr \<lparr>text' = t\<rparr>)
      | _ \<Rightarrow> Inl NotAnObject)"

text \<open>\<^verbatim>\<open>class QueryRequest(BaseModel): system: str; user: str; max_tokens: int = 256\<close>\<close>

definition parse_QueryRequest :: "'f coercions \<Rightarrow> 'f json \<Rightarrow> verr + QueryRequest" where
  "parse_QueryRequest C body =
     (case body of
        JObj obj \<Rightarrow>
          (case field (as_str C) None obj ''system'' of
             Inl v \<Rightarrow> Inl v
           | Inr sy \<Rightarrow>
               (case field (as_str C) None obj ''user'' of
                  Inl v \<Rightarrow> Inl v
                | Inr us \<Rightarrow>
                    (case field (as_int C) (Some 256) obj ''max_tokens'' of
                       Inl v \<Rightarrow> Inl v
                     | Inr mt \<Rightarrow> Inr \<lparr>system = sy, user = us, max_tokens = mt\<rparr>)))
      | _ \<Rightarrow> Inl NotAnObject)"

datatype 'f request = POST_embed "'f json" | POST_query "'f json" | GET_health

datatype 'f response = OK "'f json" | Unprocessable verr | InternalServerError pyexc

fun status_code :: "'f response \<Rightarrow> nat" where
  "status_code (OK _) = 200"
| "status_code (Unprocessable _) = 422"
| "status_code (InternalServerError _) = 500"

definition respond :: "(pyexc + 'f json) \<times> 's \<Rightarrow> 'f response \<times> 's" where
  "respond out = (case out of (Inl e, s') \<Rightarrow> (InternalServerError e, s') | (Inr p, s') \<Rightarrow> (OK p, s'))"

definition serve :: "'f coercions \<Rightarrow> ('w, 'e, 'm, 't, 'i, 'f) lib \<Rightarrow> 'f request \<Rightarrow> ('w, 'e, 'm, 't) state \<Rightarrow> 'f response \<times> ('w, 'e, 'm, 't) state" where
  "serve C L rq s =
     (case rq of
        POST_embed body \<Rightarrow>
          (case parse_EmbedRequest C body of
             Inl v \<Rightarrow> (Unprocessable v, s)
           | Inr req \<Rightarrow> respond (embed L req s))
      | POST_query body \<Rightarrow>
          (case parse_QueryRequest C body of
             Inl v \<Rightarrow> (Unprocessable v, s)
           | Inr req \<Rightarrow> respond (query L req s))
      | GET_health \<Rightarrow> respond (health s))"

text \<open>The process serving a sequence of requests, one after the other.\<close>

fun run :: "'f coercions \<Rightarrow> ('w, 'e, 'm, 't, 'i, 'f) lib \<Rightarrow> 'f request list \<Rightarrow> ('w, 'e, 'm, 't) state \<Rightarrow> 'f response list \<times> ('w, 'e, 'm, 't) state" where
  "run C L [] s = ([], s)"
| "run C L (rq # rqs) s =
     (case serve C L rq s of (r, s') \<Rightarrow> (case run C L rqs s' of (rs, s'') \<Rightarrow> (r # rs, s'')))"

section \<open>Stand-ins for the external libraries\<close>

text \<open>
  To evaluate the handlers on concrete requests, the external libraries are replaced by
  small stand-ins. The world says how many model constructions still fail (a missing
  download, for instance) and which tokens the language model would emit next. Texts
  are tokenized one code point per token, the chat template concatenates the contents
  of the messages, and the language model returns its input followed by at most
  \<open>max_new_tokens\<close> tokens of the continuation. With \<open>strict\<close> set, \<open>generate\<close> refuses
  a budget that is not positive, as a generation library that validates its arguments
  does.
\<close>

record stub_world =
  load_failures :: nat
  continuation :: "int list"

definition offline :: pyexc where
  "offline = PyException (py ''offline'')"

definition stub_load :: "nat \<Rightarrow> stub_world \<Rightarrow> (pyexc + nat) \<times> stub_world" where
  "stub_load h w =
     (if load_failures w = 0 then (Inr h, w)
      else (Inl offline, w\<lparr>load_failures := load_failures w - 1\<rparr>))"

definition stub_generate :: "bool \<Rightarrow> nat \<Rightarrow> int list list \<Rightarrow> generate_kwargs \<Rightarrow> stub_world \<Rightarrow> (pyexc + int list list) \<times> stub_world" where
  "stub_generate strict m ins kw w =
     (if strict \<and> max_new_tokens kw \<le> 0
      then (Inl (PyException (py ''max_new_tokens must be greater than 0'')), w)
      else (Inr (map (\<lambda>ids. ids @ take (nat (max_new_tokens kw)) (continuation w)) ins), w))"

definition stub_lib :: "bool \<Rightarrow> (stub_world, nat, nat, nat, int list list, real) lib" where
  "stub_lib strict =
     \<lparr>import_sentence_transformers = (\<lambda>w. (None, w)),
      SentenceTransformer = (\<lambda>name. stub_load 1),
      import_transformers = (\<lambda>w. (None, w)),
      AutoModelForCausalLM_from_pretrained = (\<lambda>name device dtype. stub_load 2),
      AutoTokenizer_from_pretrained = (\<lambda>name w. (Inr 3, w)),
      encode = (\<lambda>m texts w. (Inr (map (\<lambda>t. [real (length t), 0, 1]) texts), w)),
      import_torch = (\<lambda>w. (None, w)),
      apply_chat_template = (\<lambda>t msgs tokenize add_generation_prompt w. (Inr (concat (map snd msgs)), w)),
      tokenizer_call = (\<lambda>t texts w. (Inr (map (map int) texts), w)),
      input_ids = (\<lambda>i. i),
      generate = stub_generate strict,
      batch_decode = (\<lambda>t idss skip_special_tokens w. (Inr (map (map nat) idss), w))\<rparr>"

text \<open>
  A second stand-in for the language model emits one token, the absolute value of the
  budget it was given, so that the answer shows which budget reached \<open>generate\<close>.
\<close>

definition budget_generate :: "nat \<Rightarrow> int list list \<Rightarrow> generate_kwargs \<Rightarrow> stub_world \<Rightarrow> (pyexc + int list list) \<times> stub_world" where
  "budget_generate m ins kw w = (Inr (map (\<lambda>ids. ids @ [abs (max_new_tokens kw)]) ins), w)"

definition budget_lib :: "(stub_world, nat, nat, nat, int list list, real) lib" where
  "budget_lib = (stub_lib False)\<lparr>generate := budget_generate\<rparr>"

definition no_coercions :: "'f coercions" where
  "no_coercions = \<lparr>lax_str = (\<lambda>_. None), lax_int = (\<lambda>_. None)\<rparr>"

definition stub_state :: "nat \<Rightarrow> int list \<Rightarrow> (stub_world, nat, nat, nat) state" where
  "stub_state n ks = initial \<lparr>load_failures = n, continuation = ks\<rparr>"

definition loaded_state :: "int list \<Rightarrow> (stub_world, nat, nat, nat) state" where
  "loaded_state ks = (stub_state 0 ks)\<lparr>llm_model := Some \<lparr>model = 2, tokenizer = 3\<rparr>\<rparr>"

section \<open>Auxiliary notions\<close>

text \<open>A step keeps the cache when a slot that is filled before it holds the same handle after it.\<close>

definition keeps :: "('w, 'e, 'm, 't) state \<Rightarrow> ('w, 'e, 'm, 't) state \<Rightarrow> bool" where
  "keeps s s' \<longleftrightarrow>
     (embed_model s = None \<or> embed_model s' = embed_model s) \<and>
     (llm_model s = None \<or> llm_model s' = llm_model s)"

section \<open>The cache slots\<close>

subsection \<open>What the bodies of the two \<^verbatim>\<open>try\<close> blocks change\<close>

lemma embed_try_body_slots:
  "embed_try_body L s = (r, s') \<Longrightarrow>
     llm_model s' = llm_model s \<and> stdout s' = stdout s \<and>
     (case r of Inl e \<Rightarrow> embed_model s' = embed_model s | Inr _ \<Rightarrow> embed_model s' \<noteq> None)"
  by (auto simp: embed_try_body_def bind_def import_def ext_def split: prod.splits option.splits sum.splits)

lemma llm_try_body_slots:
  "llm_try_body L s = (r, s') \<Longrightarrow>
     embed_model s' = embed_model s \<and>
     (case r of Inl e \<Rightarrow> llm_model s' = llm_model s | Inr _ \<Rightarrow> llm_model s' \<noteq> None)"
  by (auto simp: llm_try_body_def bind_def import_def ext_def print_def split: prod.splits option.splits sum.splits)

lemma get_embed_model_hit:
  "embed_model s = Some m \<Longrightarrow> get_embed_model L s = (Inr (Some m), s)"
  by (simp add: get_embed_model_def)

lemma get_embed_model_Inr:
  "get_embed_model L s = (Inr r, s') \<Longrightarrow> r \<noteq> None \<and> embed_model s' = r \<and> llm_model s' = llm_model s"
  by (auto simp: get_embed_model_def bind_def try_log_reraise_def
      split: if_splits prod.splits sum.splits dest!: embed_try_body_slots)

lemma get_embed_model_Inl:
  "get_embed_model L s = (Inl e, s') \<Longrightarrow>
     embed_model s = None \<and> embed_model s' = None \<and> llm_model s' = llm_model s \<and>
     fst (embed_try_body L s) = Inl e"
  by (auto simp: get_embed_model_def bind_def try_log_reraise_def
      split: if_splits prod.splits sum.splits dest!: embed_try_body_slots)

lemma get_llm_model_hit:
  "llm_model s = Some d \<Longrightarrow> get_llm_model L s = (Inr (Some d), s)"
  by (simp add: get_llm_model_def)

lemma get_llm_model_Inr:
  "get_llm_model L s = (Inr r, s') \<Longrightarrow> r \<noteq> None \<and> llm_model s' = r \<and> embed_model s' = embed_model s"
  by (auto simp: get_llm_model_def bind_def try_log_reraise_def
      split: if_splits prod.splits sum.splits dest!: llm_try_body_slots)

lemma get_llm_model_Inl:
  "get_llm_model L s = (Inl e, s') \<Longrightarrow>
     llm_model s = None \<and> llm_model s' = None \<and> embed_model s' = embed_model s \<and>
     fst (llm_try_body L s) = Inl e"
  by (auto simp: get_llm_model_def bind_def try_log_reraise_def
      split: if_splits prod.splits sum.splits dest!: llm_try_body_slots)

lemma get_embed_model_miss_ok:
  "embed_model s = None \<Longrightarrow> import_sentence_transformers L (world s) = (None, w1) \<Longrightarrow>
   SentenceTransformer L ''sentence-transformers/all-MiniLM-L6-v2'' w1 = (Inr m, w2) \<Longrightarrow>
   get_embed_model L s = (Inr (Some m), s\<lparr>embed_model := Some m, world := w2\<rparr>)"
  by (simp add: get_embed_model_def bind_def try_log_reraise_def embed_try_body_def import_def ext_def)

lemma get_embed_model_miss_raise:
  "embed_model s = None \<Longrightarrow> import_sentence_transformers L (world s) = (None, w1) \<Longrightarrow>
   SentenceTransformer L ''sentence-transformers/all-MiniLM-L6-v2'' w1 = (Inl e, w2) \<Longrightarrow>
   get_embed_model L s =
     (Inl e, s\<lparr>world := w2,
               stdout := (if is_Exception e then stdout s @ [py ''Error loading embedding model: '' @ str_of e] else stdout s)\<rparr>)"
  by (simp add: get_embed_model_def bind_def try_log_reraise_def embed_try_body_def import_def ext_def)

lemma get_llm_model_miss_ok:
  "llm_model s = None \<Longrightarrow> import_transformers L (world s) = (None, w1) \<Longrightarrow>
   AutoModelForCausalLM_from_pretrained L ''Qwen/Qwen2.5-1.5B-Instruct'' ''cpu'' ''auto'' w1 = (Inr m, w2) \<Longrightarrow>
   AutoTokenizer_from_pretrained L ''Qwen/Qwen2.5-1.5B-Instruct'' w2 = (Inr t, w3) \<Longrightarrow>
   get_llm_model L s =
     (Inr (Some \<lparr>model = m, tokenizer = t\<rparr>),
      s\<lparr>llm_model := Some \<lparr>model = m, tokenizer = t\<rparr>, world := w3,
        stdout := stdout s @ [py ''Loading Qwen model (this may take a moment)...'', py ''Qwen model loaded successfully'']\<rparr>)"
  by (simp add: get_llm_model_def bind_def try_log_reraise_def llm_try_body_def import_def ext_def print_def)

lemma get_llm_model_miss_raise_model:
  "llm_model s = None \<Longrightarrow> import_transformers L (world s) = (None, w1) \<Longrightarrow>
   AutoModelForCausalLM_from_pretrained L ''Qwen/Qwen2.5-1.5B-Instruct'' ''cpu'' ''auto'' w1 = (Inl e, w2) \<Longrightarrow>
   fst (get_llm_model L s) = Inl e \<and> llm_model (snd (get_llm_model L s)) = None"
  by (simp add: get_llm_model_def bind_def try_log_reraise_def llm_try_body_def import_def ext_def print_def)

lemma get_llm_model_miss_raise_tokenizer:
  "llm_model s = None \<Longrightarrow> import_transformers L (world s) = (None, w1) \<Longrightarrow>
   AutoModelForCausalLM_from_pretrained L ''Qwen/Qwen2.5-1.5B-Instruct'' ''cpu'' ''auto'' w1 = (Inr m, w2) \<Longrightarrow>
   AutoTokenizer_from_pretrained L ''Qwen/Qwen2.5-1.5B-Instruct'' w2 = (Inl e, w3) \<Longrightarrow>
   fst (get_llm_model L s) = Inl e \<and> llm_model (snd (get_llm_model L s)) = None"
  by (simp add: get_llm_model_def bind_def try_log_reraise_def llm_try_body_def import_def ext_def print_def)

subsection \<open>Filled slots stay as they are\<close>

lemma keeps_refl: "keeps s s"
  by (simp add: keeps_def)

lemma keeps_trans: "keeps s s' \<Longrightarrow> keeps s' s'' \<Longrightarrow> keeps s s''"
  by (auto simp: keeps_def)

lemma bind_keeps:
  assumes f: "\<And>r s'. f s = (r, s') \<Longrightarrow> keeps s s'"
    and g: "\<And>x s1 r s'. g x s1 = (r, s') \<Longrightarrow> keeps s1 s'"
    and b: "bind f g s = (r, s')"
  shows "keeps s s'"
proof (cases "f s")
  case (Pair a s1)
  note fs = Pair
  show ?thesis
  proof (cases a)
    case (Inl e)
    with fs b have "s' = s1" by (simp add: bind_def)
    with f [OF fs] show ?thesis by simp
  next
    case (Inr x)
    with fs b have "g x s1 = (r, s')" by (simp add: bind_def)
    from keeps_trans [OF f [OF fs] g [OF this]] show ?thesis .
  qed
qed

lemma ext_keeps: "ext f s = (r, s') \<Longrightarrow> keeps s s'"
  by (auto simp: ext_def keeps_def split: prod.splits)

lemma import_keeps: "import f s = (r, s') \<Longrightarrow> keeps s s'"
  by (auto simp: import_def keeps_def split: prod.splits option.splits)

lemma first_keeps: "first xs s = (r, s') \<Longrightarrow> keeps s s'"
  by (auto simp: first_def raise_def return_def keeps_def split: list.splits)

lemma return_keeps: "return x s = (r, s') \<Longrightarrow> keeps s s'"
  by (auto simp: return_def keeps_def)

lemma raise_keeps: "raise e s = (r, s') \<Longrightarrow> keeps s s'"
  by (auto simp: raise_def keeps_def)

lemma get_embed_model_keeps: "get_embed_model L s = (r, s') \<Longrightarrow> keeps s s'"
proof (cases "embed_model s")
  case None
  assume "get_embed_model L s = (r, s')"
  then have "llm_model s' = llm_model s"
    by (cases r) (auto dest: get_embed_model_Inl get_embed_model_Inr)
  with None show ?thesis by (simp add: keeps_def)
next
  case (Some m)
  assume "get_embed_model L s = (r, s')"
  with get_embed_model_hit [OF Some, of L] show ?thesis by (simp add: keeps_refl)
qed

lemma get_llm_model_keeps: "get_llm_model L s = (r, s') \<Longrightarrow> keeps s s'"
proof (cases "llm_model s")
  case None
  assume "get_llm_model L s = (r, s')"
  then have "embed_model s' = embed_model s"
    by (cases r) (auto dest: get_llm_model_Inl get_llm_model_Inr)
  with None show ?thesis by (simp add: keeps_def)
next
  case (Some d)
  assume "get_llm_model L s = (r, s')"
  with get_llm_model_hit [OF Some, of L] show ?thesis by (simp add: keeps_refl)
qed

lemma embed_keeps: "embed L req s = (r, s') \<Longrightarrow> keeps s s'"
  unfolding embed_def
  by (erule bind_keeps [rotated 2])
     (auto elim!: get_embed_model_keeps bind_keeps [rotated 2] ext_keeps first_keeps return_keeps raise_keeps
           split: option.splits)

lemma query_keeps: "query L req s = (r, s') \<Longrightarrow> keeps s s'"
  unfolding query_def
  by (erule bind_keeps [rotated 2])
     (auto elim!: get_llm_model_keeps import_keeps bind_keeps [rotated 2] ext_keeps first_keeps return_keeps raise_keeps
           split: option.splits)

lemma serve_keeps: "serve C L rq s = (r, s') \<Longrightarrow> keeps s s'"
  by (auto simp: serve_def respond_def health_def return_def keeps_refl
      split: request.splits sum.splits prod.splits dest: embed_keeps query_keeps)

lemma run_keeps: "keeps s (snd (run C L rqs s))"
proof (induction rqs arbitrary: s)
  case Nil
  show ?case by (simp add: keeps_refl)
next
  case (Cons rq rqs)
  obtain r s1 where 1: "serve C L rq s = (r, s1)" by (cases "serve C L rq s")
  have "snd (run C L (rq # rqs) s) = snd (run C L rqs s1)"
    using 1 by (simp split: prod.splits)
  with keeps_trans [OF serve_keeps [OF 1] Cons.IH [of s1]] show ?case by simp
qed

lemma get_embed_model_miss:
  "embed_model s = None \<Longrightarrow>
   fst (get_embed_model L s) =
     (case embed_try_body L s of (Inl e, _) \<Rightarrow> Inl e | (Inr _, s1) \<Rightarrow> Inr (embed_model s1))"
  by (simp add: get_embed_model_def bind_def try_log_reraise_def split: prod.splits sum.splits)

lemma get_llm_model_miss:
  "llm_model s = None \<Longrightarrow>
   fst (get_llm_model L s) =
     (case llm_try_body L s of (Inl e, _) \<Rightarrow> Inl e | (Inr _, s1) \<Rightarrow> Inr (llm_model s1))"
  by (simp add: get_llm_model_def bind_def try_log_reraise_def split: prod.splits sum.splits)

lemma get_embed_model_raise:
  assumes "embed_model s = None" and "fst (embed_try_body L s) = Inl e"
  shows "fst (get_embed_model L s) = Inl e \<and> embed_model (snd (get_embed_model L s)) = None"
proof -
  from assms have 1: "fst (get_embed_model L s) = Inl e"
    by (cases "embed_try_body L s") (simp add: get_embed_model_miss)
  obtain s' where "get_embed_model L s = (Inl e, s')"
    using 1 by (cases "get_embed_model L s") simp
  with get_embed_model_Inl [OF this] show ?thesis by simp
qed

lemma get_llm_model_raise:
  assumes "llm_model s = None" and "fst (llm_try_body L s) = Inl e"
  shows "fst (get_llm_model L s) = Inl e \<and> llm_model (snd (get_llm_model L s)) = None"
proof -
  from assms have 1: "fst (get_llm_model L s) = Inl e"
    by (cases "llm_try_body L s") (simp add: get_llm_model_miss)
  obtain s' where "get_llm_model L s = (Inl e, s')"
    using 1 by (cases "get_llm_model L s") simp
  with get_llm_model_Inl [OF this] show ?thesis by simp
qed

lemma run_embed_model: "embed_model s \<noteq> None \<Longrightarrow> embed_model (snd (run C L rqs s)) = embed_model s"
  using run_keeps [of s C L rqs] by (auto simp: keeps_def)

lemma run_llm_model: "llm_model s \<noteq> None \<Longrightarrow> llm_model (snd (run C L rqs s)) = llm_model s"
  using run_keeps [of s C L rqs] by (auto simp: keeps_def)

text \<open>
  C1. Each of the two accessors, \<^verbatim>\<open>get_embed_model\<close> and \<^verbatim>\<open>get_llm_model\<close>:
  when the slot is filled, the call returns the cached handle and leaves the whole
  state (slots, output, external world) as it is, whatever the libraries would do;
  when the slot is empty and the imports and constructors succeed, the call returns
  the new handle and stores it in the slot; when the slot is empty and the body of
  the \<^verbatim>\<open>try\<close> raises, the call raises the same exception and the slot is still
  empty, so that the next call runs the body of the \<^verbatim>\<open>try\<close> again; a call that
  returns, returns a handle that is not \<^verbatim>\<open>None\<close> and is the content of the slot;
  and a filled slot holds the same handle after any sequence of requests.
\<close>

theorem model_accessors_cache:
  "(embed_model s = Some m \<longrightarrow> get_embed_model L s = (Inr (Some m), s)) \<and>
   (embed_model s = None \<and> import_sentence_transformers L (world s) = (None, wa) \<and>
    SentenceTransformer L ''sentence-transformers/all-MiniLM-L6-v2'' wa = (Inr m, wb) \<longrightarrow>
      get_embed_model L s = (Inr (Some m), s\<lparr>embed_model := Some m, world := wb\<rparr>)) \<and>
   (embed_model s = None \<and> fst (embed_try_body L s) = Inl e \<longrightarrow>
      fst (get_embed_model L s) = Inl e \<and> embed_model (snd (get_embed_model L s)) = None) \<and>
   (get_embed_model L s = (Inr r, s') \<longrightarrow> r \<noteq> None \<and> embed_model s' = r) \<and>
   (get_embed_model L s = (Inl e, s') \<longrightarrow>
      embed_model s' = None \<and>
      fst (get_embed_model L s') =
        (case embed_try_body L s' of (Inl e', _) \<Rightarrow> Inl e' | (Inr _, s1) \<Rightarrow> Inr (embed_model s1))) \<and>
   (embed_model s \<noteq> None \<longrightarrow> embed_model (snd (run C L rqs s)) = embed_model s) \<and>
   (llm_model s = Some d \<longrightarrow> get_llm_model L s = (Inr (Some d), s)) \<and>
   (llm_model s = None \<and> import_transformers L (world s) = (None, wa) \<and>
    AutoModelForCausalLM_from_pretrained L ''Qwen/Qwen2.5-1.5B-Instruct'' ''cpu'' ''auto'' wa = (Inr lm, wb) \<and>
    AutoTokenizer_from_pretrained L ''Qwen/Qwen2.5-1.5B-Instruct'' wb = (Inr tk, wc) \<longrightarrow>
      fst (get_llm_model L s) = Inr (Some \<lparr>model = lm, tokenizer = tk\<rparr>) \<and>
      llm_model (snd (get_llm_model L s)) = Some \<lparr>model = lm, tokenizer = tk\<rparr> \<and>
      world (snd (get_llm_model L s)) = wc) \<and>
   (llm_model s = None \<and> fst (llm_try_body L s) = Inl e \<longrightarrow>
      fst (get_llm_model L s) = Inl e \<and> llm_model (snd (get_llm_model L s)) = None) \<and>
   (get_llm_model L s = (Inr rl, s') \<longrightarrow> rl \<noteq> None \<and> llm_model s' = rl) \<and>
   (get_llm_model L s = (Inl e, s') \<longrightarrow>
      llm_model s' = None \<and>
      fst (get_llm_model L s') =
        (case llm_try_body L s' of (Inl e', _) \<Rightarrow> Inl e' | (Inr _, s1) \<Rightarrow> Inr (llm_model s1))) \<and>
   (llm_model s \<noteq> None \<longrightarrow> llm_model (snd (run C L rqs s)) = llm_model s)"
proof -
  have e1: "embed_model s = Some m \<longrightarrow> get_embed_model L s = (Inr (Some m), s)"
    by (simp add: get_embed_model_hit)
  have e2: "embed_model s = None \<and> import_sentence_transformers L (world s) = (None, wa) \<and>
    SentenceTransformer L ''sentence-transformers/all-MiniLM-L6-v2'' wa = (Inr m, wb) \<longrightarrow>
      get_embed_model L s = (Inr (Some m), s\<lparr>embed_model := Some m, world := wb\<rparr>)"
    using get_embed_model_miss_ok [of s L wa m wb] by blast
  have e3: "embed_model s = None \<and> fst (embed_try_body L s) = Inl e \<longrightarrow>
      fst (get_embed_model L s) = Inl e \<and> embed_model (snd (get_embed_model L s)) = None"
    using get_embed_model_raise [of s L e] by blast
  have e4: "get_embed_model L s = (Inr r, s') \<longrightarrow> r \<noteq> None \<and> embed_model s' = r"
    using get_embed_model_Inr [of L s r s'] by blast
  have e5: "get_embed_model L s = (Inl e, s') \<longrightarrow>
      embed_model s' = None \<and>
      fst (get_embed_model L s') =
        (case embed_try_body L s' of (Inl e', _) \<Rightarrow> Inl e' | (Inr _, s1) \<Rightarrow> Inr (embed_model s1))"
    using get_embed_model_Inl [of L s e s'] get_embed_model_miss [of s' L] by blast
  have e6: "embed_model s \<noteq> None \<longrightarrow> embed_model (snd (run C L rqs s)) = embed_model s"
    using run_embed_model [of s C L rqs] by blast
  have l1: "llm_model s = Some d \<longrightarrow> get_llm_model L s = (Inr (Some d), s)"
    by (simp add: get_llm_model_hit)
  have l2: "llm_model s = None \<and> import_transformers L (world s) = (None, wa) \<and>
    AutoModelForCausalLM_from_pretrained L ''Qwen/Qwen2.5-1.5B-Instruct'' ''cpu'' ''auto'' wa = (Inr lm, wb) \<and>
    AutoTokenizer_from_pretrained L ''Qwen/Qwen2.5-1.5B-Instruct'' wb = (Inr tk, wc) \<longrightarrow>
      fst (get_llm_model L s) = Inr (Some \<lparr>model = lm, tokenizer = tk\<rparr>) \<and>
      llm_model (snd (get_llm_model L s)) = Some \<lparr>model = lm, tokenizer = tk\<rparr> \<and>
      world (snd (get_llm_model L s)) = wc"
    using get_llm_model_miss_ok [of s L wa lm wb tk wc] by auto
  have l3: "llm_model s = None \<and> fst (llm_try_body L s) = Inl e \<longrightarrow>
      fst (get_llm_model L s) = Inl e \<and> llm_model (snd (get_llm_model L s)) = None"
    using get_llm_model_raise [of s L e] by blast
  have l4: "get_llm_model L s = (Inr rl, s') \<longrightarrow> rl \<noteq> None \<and> llm_model s' = rl"
    using get_llm_model_Inr [of L s rl s'] by blast
  have l5: "get_llm_model L s = (Inl e, s') \<longrightarrow>
      llm_model s' = None \<and>
      fst (get_llm_model L s') =
        (case llm_try_body L s' of (Inl e', _) \<Rightarrow> Inl e' | (Inr _, s1) \<Rightarrow> Inr (llm_model s1))"
    using get_llm_model_Inl [of L s e s'] get_llm_model_miss [of s' L] by blast
  have l6: "llm_model s \<noteq> None \<longrightarrow> llm_model (snd (run C L rqs s)) = llm_model s"
    using run_llm_model [of s C L rqs] by blast
  from e1 e2 e3 e4 e5 e6 l1 l2 l3 l4 l5 l6 show ?thesis by blast
qed


lemmas stub_eval = get_embed_model_def get_llm_model_def bind_def try_log_reraise_def
  embed_try_body_def llm_try_body_def import_def ext_def print_def stub_lib_def stub_load_def
  stub_state_def initial_def offline_def

theorem model_accessors_cache_witness:
  "embed_model (stub_state 1 []) = None \<and>
   fst (embed_try_body (stub_lib False) (stub_state 1 [])) = Inl offline \<and>
   fst (get_embed_model (stub_lib False) (stub_state 1 [])) = Inl offline \<and>
   embed_model (snd (get_embed_model (stub_lib False) (stub_state 1 []))) = None \<and>
   fst (get_embed_model (stub_lib False) (snd (get_embed_model (stub_lib False) (stub_state 1 [])))) = Inr (Some 1) \<and>
   get_embed_model (stub_lib False) (stub_state 0 []) =
     (Inr (Some 1), (stub_state 0 [])\<lparr>embed_model := Some 1\<rparr>) \<and>
   get_embed_model (stub_lib False) ((stub_state 5 [])\<lparr>embed_model := Some 1\<rparr>) =
     (Inr (Some 1), (stub_state 5 [])\<lparr>embed_model := Some 1\<rparr>) \<and>
   embed_model (snd (run (no_coercions :: real coercions) (stub_lib False)
       [POST_query (JObj [(''system'', JStr []), (''user'', JStr [])]), GET_health]
       ((stub_state 5 [])\<lparr>embed_model := Some 1\<rparr>))) = Some 1 \<and>
   llm_model (stub_state 1 []) = None \<and>
   fst (llm_try_body (stub_lib False) (stub_state 1 [])) = Inl offline \<and>
   fst (get_llm_model (stub_lib False) (stub_state 1 [])) = Inl offline \<and>
   llm_model (snd (get_llm_model (stub_lib False) (stub_state 1 []))) = None \<and>
   fst (get_llm_model (stub_lib False) (snd (get_llm_model (stub_lib False) (stub_state 1 [])))) =
     Inr (Some \<lparr>model = 2, tokenizer = 3\<rparr>) \<and>
   fst (get_llm_model (stub_lib False) (stub_state 0 [])) = Inr (Some \<lparr>model = 2, tokenizer = 3\<rparr>) \<and>
   llm_model (snd (get_llm_model (stub_lib False) (stub_state 0 []))) = Some \<lparr>model = 2, tokenizer = 3\<rparr> \<and>
   get_llm_model (stub_lib False) ((stub_state 5 [])\<lparr>llm_model := Some \<lparr>model = 2, tokenizer = 3\<rparr>\<rparr>) =
     (Inr (Some \<lparr>model = 2, tokenizer = 3\<rparr>), (stub_state 5 [])\<lparr>llm_model := Some \<lparr>model = 2, tokenizer = 3\<rparr>\<rparr>) \<and>
   llm_model (snd (run (no_coercions :: real coercions) (stub_lib False)
       [POST_embed (JObj [(''text'', JStr [])]), GET_health]
       ((stub_state 5 [])\<lparr>llm_model := Some \<lparr>model = 2, tokenizer = 3\<rparr>\<rparr>))) = Some \<lparr>model = 2, tokenizer = 3\<rparr>"
proof -
  let ?L = "stub_lib False"
  let ?C = "no_coercions :: real coercions"
  let ?w = "\<lparr>load_failures = 0, continuation = []\<rparr>"
  let ?d = "\<lparr>model = 2 :: nat, tokenizer = 3 :: nat\<rparr>"
  let ?se = "snd (get_embed_model ?L (stub_state 1 []))"
  let ?sl = "snd (get_llm_model ?L (stub_state 1 []))"
  let ?ce = "(stub_state 5 [])\<lparr>embed_model := Some (1::nat)\<rparr>"
  let ?cl = "(stub_state 5 [])\<lparr>llm_model := Some ?d\<rparr>"
  let ?rqe = "[POST_query (JObj [(''system'', JStr []), (''user'', JStr [])]), GET_health] :: real request list"
  let ?rql = "[POST_embed (JObj [(''text'', JStr [])]), GET_health] :: real request list"
  note A = model_accessors_cache [where L = ?L and C = ?C and s = "stub_state 1 []" and e = offline
      and s' = ?se]
  note Al = model_accessors_cache [where L = ?L and C = ?C and s = "stub_state 1 []" and e = offline
      and s' = ?sl]
  note B = model_accessors_cache [where L = ?L and C = ?C and s = "stub_state 0 []"
      and wa = ?w and wb = ?w and wc = ?w and m = 1 and lm = 2 and tk = 3]
  note Ce = model_accessors_cache [where L = ?L and C = ?C and s = ?ce and m = 1 and r = "Some 1"
      and s' = ?ce and rqs = ?rqe]
  note Cl = model_accessors_cache [where L = ?L and C = ?C and s = ?cl and d = ?d and rl = "Some ?d"
      and s' = ?cl and rqs = ?rql]
  have a1: "embed_model (stub_state 1 []) = None"
    by (simp add: stub_state_def initial_def)
  have a2: "fst (embed_try_body ?L (stub_state 1 [])) = Inl offline"
    by (simp add: stub_eval)
  from A a1 a2 have a3: "fst (get_embed_model ?L (stub_state 1 [])) = Inl offline"
    and a4: "embed_model ?se = None" by blast+
  from a3 have a5: "get_embed_model ?L (stub_state 1 []) = (Inl offline, ?se)"
    by (simp add: prod_eq_iff)
  have a6: "embed_try_body ?L ?se = (Inr (), ?se\<lparr>embed_model := Some 1\<rparr>)"
    by (simp add: stub_eval)
  from A a5 have "fst (get_embed_model ?L ?se) =
      (case embed_try_body ?L ?se of (Inl e', _) \<Rightarrow> Inl e' | (Inr _, s1) \<Rightarrow> Inr (embed_model s1))"
    by blast
  with a6 have a7: "fst (get_embed_model ?L ?se) = Inr (Some 1)" by simp
  have b1: "embed_model (stub_state 0 []) = None \<and>
      import_sentence_transformers ?L (world (stub_state 0 [])) = (None, ?w) \<and>
      SentenceTransformer ?L ''sentence-transformers/all-MiniLM-L6-v2'' ?w = (Inr 1, ?w)"
    by (simp add: stub_lib_def stub_load_def stub_state_def initial_def)
  from B b1 have "get_embed_model ?L (stub_state 0 []) =
      (Inr (Some 1), (stub_state 0 [])\<lparr>embed_model := Some 1, world := ?w\<rparr>)" by blast
  then have b2: "get_embed_model ?L (stub_state 0 []) = (Inr (Some 1), (stub_state 0 [])\<lparr>embed_model := Some 1\<rparr>)"
    by (simp add: stub_state_def initial_def)
  have c1: "embed_model ?ce = Some 1" by simp
  from Ce c1 have c2: "get_embed_model ?L ?ce = (Inr (Some 1), ?ce)" by blast
  from Ce c2 have c3: "Some (1::nat) \<noteq> None \<and> embed_model ?ce = Some 1" by blast
  from Ce c1 have c4: "embed_model (snd (run ?C ?L ?rqe ?ce)) = Some 1" by simp
  have la1: "llm_model (stub_state 1 []) = None"
    by (simp add: stub_state_def initial_def)
  have la2: "fst (llm_try_body ?L (stub_state 1 [])) = Inl offline"
    by (simp add: stub_eval)
  from Al la1 la2 have la3: "fst (get_llm_model ?L (stub_state 1 [])) = Inl offline"
    and la4: "llm_model ?sl = None" by blast+
  from la3 have la5: "get_llm_model ?L (stub_state 1 []) = (Inl offline, ?sl)"
    by (simp add: prod_eq_iff)
  have la6: "fst (llm_try_body ?L ?sl) = Inr () \<and> llm_model (snd (llm_try_body ?L ?sl)) = Some ?d"
    by (simp add: stub_eval)
  from Al la5 have "fst (get_llm_model ?L ?sl) =
      (case llm_try_body ?L ?sl of (Inl e', _) \<Rightarrow> Inl e' | (Inr _, s1) \<Rightarrow> Inr (llm_model s1))"
    by blast
  with la6 have la7: "fst (get_llm_model ?L ?sl) = Inr (Some ?d)"
    by (cases "llm_try_body ?L ?sl") simp
  have lb1: "llm_model (stub_state 0 []) = None \<and>
      import_transformers ?L (world (stub_state 0 [])) = (None, ?w) \<and>
      AutoModelForCausalLM_from_pretrained ?L ''Qwen/Qwen2.5-1.5B-Instruct'' ''cpu'' ''auto'' ?w = (Inr 2, ?w) \<and>
      AutoTokenizer_from_pretrained ?L ''Qwen/Qwen2.5-1.5B-Instruct'' ?w = (Inr 3, ?w)"
    by (simp add: stub_lib_def stub_load_def stub_state_def initial_def)
  from B lb1 have lb2: "fst (get_llm_model ?L (stub_state 0 [])) = Inr (Some ?d) \<and>
      llm_model (snd (get_llm_model ?L (stub_state 0 []))) = Some ?d" by blast
  have lc1: "llm_model ?cl = Some ?d" by simp
  from Cl lc1 have lc2: "get_llm_model ?L ?cl = (Inr (Some ?d), ?cl)" by blast
  from Cl lc2 have lc3: "Some ?d \<noteq> None \<and> llm_model ?cl = Some ?d" by blast
  from Cl lc1 have lc4: "llm_model (snd (run ?C ?L ?rql ?cl)) = Some ?d" by simp
  from a1 a2 a3 a4 a7 b2 c2 c4 la1 la2 la3 la4 la7 lb2 lc2 lc4 show ?thesis by blast
qed

text \<open>
  C4. \<^verbatim>\<open>GET /health\<close> answers with the fixed payload \<^verbatim>\<open>{"status": "ok"}\<close> in
  every state of the process, whatever the two cache slots hold and whatever was
  printed or loaded before; the handler returns the state it was given, and its
  payload is the same in any two states.
\<close>

theorem health_fixed_payload:
  "health s = (Inr (JObj [(''status'', JStr (py ''ok''))]), s) \<and>
   fst (health s) = fst (health s') \<and>
   serve C L GET_health s = (OK (JObj [(''status'', JStr (py ''ok''))]), s) \<and>
   status_code (fst (serve C L GET_health s)) = 200"
  by (simp add: health_def return_def serve_def respond_def)

theorem health_fixed_payload_witness:
  "serve (no_coercions :: real coercions) (stub_lib False) GET_health
     (snd (get_embed_model (stub_lib False) (stub_state 1 []))) =
   (OK (JObj [(''status'', JStr (py ''ok''))]), snd (get_embed_model (stub_lib False) (stub_state 1 [])))"
  using health_fixed_payload [where C = "no_coercions :: real coercions" and L = "stub_lib False"
      and s = "snd (get_embed_model (stub_lib False) (stub_state 1 []))"
      and s' = "stub_state 0 []"]
  by blast

section \<open>The query handler\<close>

subsection \<open>Trimming and the removal of the input tokens\<close>

lemma strip_Nil_iff: "strip s = [] \<longleftrightarrow> (\<forall>c\<in>set s. py_isspace c)"
proof -
  let ?t = "dropWhile py_isspace s"
  have "strip s = [] \<longleftrightarrow> (\<forall>c\<in>set ?t. py_isspace c)"
    by (simp add: strip_def dropWhile_eq_Nil_conv)
  also have "\<dots> \<longleftrightarrow> ?t = []"
  proof
    assume a: "\<forall>c\<in>set ?t. py_isspace c"
    show "?t = []"
    proof (rule ccontr)
      assume ne: "?t \<noteq> []"
      then have "\<not> py_isspace (hd ?t)" by (rule hd_dropWhile)
      moreover from ne have "hd ?t \<in> set ?t" by simp
      ultimately show False using a by blast
    qed
  next
    assume "?t = []"
    then show "\<forall>c\<in>set ?t. py_isspace c" by (metis empty_iff empty_set)
  qed
  also have "\<dots> \<longleftrightarrow> (\<forall>c\<in>set s. py_isspace c)"
    by (rule dropWhile_eq_Nil_conv)
  finally show ?thesis .
qed

lemma strip_last: "strip s \<noteq> [] \<Longrightarrow> \<not> py_isspace (last (strip s))"
  unfolding strip_def by (simp add: last_rev hd_dropWhile)

lemma last_dropWhile_nonempty: "dropWhile P xs \<noteq> [] \<Longrightarrow> last (dropWhile P xs) = last xs"
  by (metis last_appendR takeWhile_dropWhile_id)

lemma strip_hd: "strip s \<noteq> [] \<Longrightarrow> \<not> py_isspace (hd (strip s))"
proof -
  let ?t = "dropWhile py_isspace s"
  assume ne: "strip s \<noteq> []"
  then have d: "dropWhile py_isspace (rev ?t) \<noteq> []" by (simp add: strip_def)
  have t: "?t \<noteq> []"
  proof
    assume "?t = []"
    with d show False by simp
  qed
  have "hd (strip s) = last (dropWhile py_isspace (rev ?t))"
    using d by (simp add: strip_def hd_rev)
  also have "\<dots> = last (rev ?t)" using d by (rule last_dropWhile_nonempty)
  also have "\<dots> = hd ?t" using t by (simp add: last_rev)
  finally show ?thesis using t by (simp add: hd_dropWhile)
qed

lemma remove_input_prompt_echo: "remove_input_prompt [ids] [ids @ new] = [new]"
  by (simp add: remove_input_prompt_def)

lemma remove_input_prompt_same: "remove_input_prompt ins ins = map (\<lambda>_. []) ins"
  by (simp add: remove_input_prompt_def zip_same_conv_map)

lemma ext_world: "ext f s = (r, s') \<Longrightarrow> f (world s) = (r, world s') \<and> s' = s\<lparr>world := world s'\<rparr>"
  by (auto simp: ext_def split: prod.splits)

lemma query_success:
  assumes "query L req s = (Inr p, s')"
  shows "\<exists>d text inputs outs decoded rest wa wb wc wd.
           llm_model s' = Some d \<and>
           fst (apply_chat_template L (tokenizer d) (messages req) False True wa) = Inr text \<and>
           fst (tokenizer_call L (tokenizer d) [text] wb) = Inr inputs \<and>
           fst (generate L (model d) inputs (query_kwargs req) wc) = Inr outs \<and>
           fst (batch_decode L (tokenizer d) (remove_input_prompt (input_ids L inputs) outs) True wd) = Inr (decoded # rest) \<and>
           p = JObj [(''answer'', JStr (strip decoded))]"
proof -
  from assms obtain s1 where 1: "import (import_torch L) s = (Inr (), s1)"
    by (auto simp: query_def bind_def split: prod.splits sum.splits)
  with assms obtain ld s2 where 2: "get_llm_model L s1 = (Inr ld, s2)"
    by (auto simp: query_def bind_def split: prod.splits sum.splits)
  from get_llm_model_Inr [OF 2] obtain d where d: "ld = Some d" "llm_model s2 = Some d" by auto
  from assms 1 2 d obtain rendered s3 where
    3: "ext (apply_chat_template L (tokenizer d) (messages req) False True) s2 = (Inr rendered, s3)"
    by (auto simp: query_def bind_def split: prod.splits sum.splits)
  from assms 1 2 d 3 obtain inputs s4 where
    4: "ext (tokenizer_call L (tokenizer d) [rendered]) s3 = (Inr inputs, s4)"
    by (auto simp: query_def bind_def split: prod.splits sum.splits)
  from assms 1 2 d 3 4 obtain outs s5 where
    5: "ext (generate L (model d) inputs (query_kwargs req)) s4 = (Inr outs, s5)"
    by (auto simp: query_def bind_def split: prod.splits sum.splits)
  from assms 1 2 d 3 4 5 obtain dec s6 where
    6: "ext (batch_decode L (tokenizer d) (remove_input_prompt (input_ids L inputs) outs) True) s5 = (Inr dec, s6)"
    by (auto simp: query_def bind_def split: prod.splits sum.splits)
  from assms 1 2 d 3 4 5 6 obtain decoded rest where
    7: "dec = decoded # rest" "p = JObj [(''answer'', JStr (strip decoded))]" "s' = s6"
    by (auto simp: query_def bind_def first_def raise_def return_def split: list.splits)
  have "llm_model s6 = Some d"
    using d(2) ext_keeps [OF 3] ext_keeps [OF 4] ext_keeps [OF 5] ext_keeps [OF 6]
    by (simp add: keeps_def)
  moreover from ext_world [OF 3]
  have "fst (apply_chat_template L (tokenizer d) (messages req) False True (world s2)) = Inr rendered"
    by simp
  moreover from ext_world [OF 4]
  have "fst (tokenizer_call L (tokenizer d) [rendered] (world s3)) = Inr inputs"
    by simp
  moreover from ext_world [OF 5]
  have "fst (generate L (model d) inputs (query_kwargs req) (world s4)) = Inr outs"
    by simp
  moreover from ext_world [OF 6] 7(1)
  have "fst (batch_decode L (tokenizer d) (remove_input_prompt (input_ids L inputs) outs) True (world s5)) = Inr (decoded # rest)"
    by simp
  ultimately show ?thesis using 7(2,3) by blast
qed

lemmas query_eval = query_def stub_eval return_def raise_def first_def stub_generate_def
  messages_def query_kwargs_def remove_input_prompt_def strip_def py_isspace_def py_def

lemma get_llm_model_generate_update: "get_llm_model (L\<lparr>generate := g\<rparr>) = get_llm_model L"
  by (rule ext) (simp add: get_llm_model_def llm_try_body_def)

lemma query_generate_cong:
  assumes "\<And>m i w. g m i (query_kwargs req) w = generate L m i (query_kwargs req) w"
  shows "query (L\<lparr>generate := g\<rparr>) req s = query L req s"
proof -
  have "g m i (query_kwargs req) = generate L m i (query_kwargs req)" for m i
    by (rule ext) (rule assms)
  then show ?thesis
    by (simp add: query_def get_llm_model_generate_update cong: option.case_cong)
qed

lemma query_generate_raises:
  assumes "\<And>m i w. \<exists>e. fst (generate L m i (query_kwargs req) w) = Inl e"
  shows "\<exists>e. fst (query L req s) = Inl e"
proof (cases "query L req s")
  case (Pair r s')
  show ?thesis
  proof (cases r)
    case (Inl e)
    with Pair show ?thesis by simp
  next
    case (Inr p)
    with Pair query_success [of L req s p s'] obtain m i w outs
      where "fst (generate L m i (query_kwargs req) w) = Inr outs" by blast
    with assms [of m i w] show ?thesis by simp
  qed
qed

lemma remove_input_prompt_length:
  "length (remove_input_prompt ins outs) = min (length ins) (length outs)"
  by (simp add: remove_input_prompt_def)

lemma remove_input_prompt_nth:
  "k < length ins \<Longrightarrow> k < length outs \<Longrightarrow>
   remove_input_prompt ins outs ! k = drop (length (ins ! k)) (outs ! k)"
  by (simp add: remove_input_prompt_def)

text \<open>
  C6, as the code has it. When \<^verbatim>\<open>query\<close> returns, its payload is
  \<^verbatim>\<open>{"answer": a}\<close> where \<open>a\<close> is the first decoded text with \<^verbatim>\<open>strip()\<close>
  applied: \<open>a\<close> is empty or neither starts nor ends with a whitespace character, and
  \<open>a\<close> is empty exactly when the decoded text holds whitespace only. Nothing in the
  handler makes the answer non-empty: for the request of the scenario the answer has no
  surrounding whitespace, and its length is greater than 0 only if the model emits a
  character that is not whitespace.
\<close>

theorem query_answer_trimmed:
  fixes L :: "('w, 'e, 'm, 't, 'i, 'f) lib"
  shows "query L req s = (Inr p, s') \<longrightarrow>
     (\<exists>(d :: ('m, 't) llm_data) ids decoded rest wd.
        fst (batch_decode L (tokenizer d) ids True wd) = Inr (decoded # rest) \<and>
        p = JObj [(''answer'', JStr (strip decoded))] \<and>
        (strip decoded = [] \<or>
         (\<not> py_isspace (hd (strip decoded)) \<and> \<not> py_isspace (last (strip decoded)))) \<and>
        (strip decoded = [] \<longleftrightarrow> (\<forall>c\<in>set decoded. py_isspace c)))"
proof
  assume "query L req s = (Inr p, s')"
  from query_success [OF this] obtain d :: "('m, 't) llm_data" and inputs outs decoded rest wd where
    "fst (batch_decode L (tokenizer d) (remove_input_prompt (input_ids L inputs) outs) True wd) = Inr (decoded # rest)"
    "p = JObj [(''answer'', JStr (strip decoded))]"
    by (elim exE conjE) blast
  moreover have "strip decoded = [] \<or>
         (\<not> py_isspace (hd (strip decoded)) \<and> \<not> py_isspace (last (strip decoded)))"
    using strip_hd [of decoded] strip_last [of decoded] by blast
  moreover note strip_Nil_iff [of decoded]
  ultimately show "\<exists>(d :: ('m, 't) llm_data) ids decoded rest wd.
        fst (batch_decode L (tokenizer d) ids True wd) = Inr (decoded # rest) \<and>
        p = JObj [(''answer'', JStr (strip decoded))] \<and>
        (strip decoded = [] \<or>
         (\<not> py_isspace (hd (strip decoded)) \<and> \<not> py_isspace (last (strip decoded)))) \<and>
        (strip decoded = [] \<longleftrightarrow> (\<forall>c\<in>set decoded. py_isspace c))" by blast
qed

theorem query_answer_trimmed_witness:
  "query (stub_lib False) \<lparr>system = py ''You are concise.'', user = py ''Say hi.'', max_tokens = 10\<rparr>
       (stub_state 0 [32, 72, 105, 33, 10]) =
     (Inr (JObj [(''answer'', JStr (py ''Hi!''))]),
      snd (query (stub_lib False) \<lparr>system = py ''You are concise.'', user = py ''Say hi.'', max_tokens = 10\<rparr>
       (stub_state 0 [32, 72, 105, 33, 10]))) \<and>
   (\<exists>decoded. (JObj [(''answer'', JStr (py ''Hi!''))] :: real json) = JObj [(''answer'', JStr (strip decoded))] \<and>
      (strip decoded = [] \<or>
         (\<not> py_isspace (hd (strip decoded)) \<and> \<not> py_isspace (last (strip decoded)))))"
proof -
  let ?q = "query (stub_lib False) \<lparr>system = py ''You are concise.'', user = py ''Say hi.'', max_tokens = 10\<rparr>
       (stub_state 0 [32, 72, 105, 33, 10])"
  have "fst ?q = Inr (JObj [(''answer'', JStr (py ''Hi!''))])"
    by (simp add: query_eval)
  then have h: "?q = (Inr (JObj [(''answer'', JStr (py ''Hi!''))]), snd ?q)"
    by (simp add: prod_eq_iff)
  from query_answer_trimmed [where L = "stub_lib False" and s = "stub_state 0 [32, 72, 105, 33, 10]"
      and req = "\<lparr>system = py ''You are concise.'', user = py ''Say hi.'', max_tokens = 10\<rparr>"
      and p = "JObj [(''answer'', JStr (py ''Hi!''))]" and s' = "snd ?q"] h
  show ?thesis by blast
qed

theorem query_answer_empty_counterexample:
  "fst (query (stub_lib False) \<lparr>system = py ''You are concise.'', user = py ''Say hi.'', max_tokens = 10\<rparr>
       (stub_state 0 [32, 10])) = Inr (JObj [(''answer'', JStr [])])"
  by (simp add: query_eval)

subsection \<open>What the handler does when the libraries return or raise\<close>

lemma query_generate_raise:
  assumes "import_torch L (world s) = (None, wa)"
    and "get_llm_model L (s\<lparr>world := wa\<rparr>) = (Inr (Some ld), sb)"
    and "apply_chat_template L (tokenizer ld) (messages req) False True (world sb) = (Inr rt, wc)"
    and "tokenizer_call L (tokenizer ld) [rt] wc = (Inr mi, wd)"
    and "generate L (model ld) mi (query_kwargs req) wd = (Inl e, we)"
  shows "query L req s = (Inl e, sb\<lparr>world := we\<rparr>)"
  using assms by (simp add: query_def bind_def import_def ext_def)

lemma query_generate_return:
  assumes "import_torch L (world s) = (None, wa)"
    and "get_llm_model L (s\<lparr>world := wa\<rparr>) = (Inr (Some ld), sb)"
    and "apply_chat_template L (tokenizer ld) (messages req) False True (world sb) = (Inr rt, wc)"
    and "tokenizer_call L (tokenizer ld) [rt] wc = (Inr mi, wd)"
    and "generate L (model ld) mi (query_kwargs req) wd = (Inr gi, we)"
    and "batch_decode L (tokenizer ld) (remove_input_prompt (input_ids L mi) gi) True we = (Inr (ans # others), wg)"
  shows "query L req s = (Inr (JObj [(''answer'', JStr (strip ans))]), sb\<lparr>world := wg\<rparr>)"
  using assms by (simp add: query_def bind_def import_def ext_def first_def return_def)

text \<open>
  C2. The tokens of the rendered prompt are removed from the generated sequences before
  decoding: \<^verbatim>\<open>query\<close> decodes the output of \<^verbatim>\<open>generate\<close> with the first
  \<^verbatim>\<open>len(input_ids)\<close> tokens of every sequence dropped, so that when the output is
  the input followed by new tokens, only the new tokens are decoded and the answer is
  the trimmed text of that continuation. Both directions are stated: where a returned
  answer comes from, and what the handler returns when the calls into the libraries
  return.
\<close>

theorem query_strips_input_tokens:
  "(query L req s = (Inr p, s') \<longrightarrow>
     (\<exists>d rendered inputs outs decoded rest wa wb wc wd.
        llm_model s' = Some d \<and>
        fst (apply_chat_template L (tokenizer d) (messages req) False True wa) = Inr rendered \<and>
        fst (tokenizer_call L (tokenizer d) [rendered] wb) = Inr inputs \<and>
        fst (generate L (model d) inputs (query_kwargs req) wc) = Inr outs \<and>
        fst (batch_decode L (tokenizer d) (remove_input_prompt (input_ids L inputs) outs) True wd) = Inr (decoded # rest) \<and>
        p = JObj [(''answer'', JStr (strip decoded))])) \<and>
   remove_input_prompt [ids] [ids @ new] = [new] \<and>
   length (remove_input_prompt ins outs') = min (length ins) (length outs') \<and>
   (k < length ins \<and> k < length outs' \<longrightarrow>
      remove_input_prompt ins outs' ! k = drop (length (ins ! k)) (outs' ! k)) \<and>
   (import_torch L (world s) = (None, va) \<and>
    get_llm_model L (s\<lparr>world := va\<rparr>) = (Inr (Some ld), sb) \<and>
    apply_chat_template L (tokenizer ld) (messages req) False True (world sb) = (Inr rt, vc) \<and>
    tokenizer_call L (tokenizer ld) [rt] vc = (Inr mi, vd) \<and>
    generate L (model ld) mi (query_kwargs req) vd = (Inr gi, ve) \<and>
    batch_decode L (tokenizer ld) (remove_input_prompt (input_ids L mi) gi) True ve = (Inr (ans # others), vf) \<longrightarrow>
      query L req s = (Inr (JObj [(''answer'', JStr (strip ans))]), sb\<lparr>world := vf\<rparr>))"
  using query_success [of L req s p s'] remove_input_prompt_echo [of ids new]
    remove_input_prompt_length [of ins outs'] remove_input_prompt_nth [of k ins outs']
    query_generate_return [where L = L and s = s and wa = va and ld = ld and sb = sb and req = req and rt = rt and wc = vc and mi = mi and wd = vd and gi = gi and we = ve and ans = ans and others = others and wg = vf]
  by blast


theorem query_strips_input_tokens_witness:
  "query (stub_lib False) \<lparr>system = py ''You are concise.'', user = py ''Say hi.'', max_tokens = 10\<rparr>
       (loaded_state [72, 105, 33]) =
     (Inr (JObj [(''answer'', JStr (py ''Hi!''))]), loaded_state [72, 105, 33]) \<and>
   (\<exists>(d :: (nat, nat) llm_data) inputs outs decoded rest wc wd.
        fst (generate (stub_lib False) (model d) inputs
              (query_kwargs \<lparr>system = py ''You are concise.'', user = py ''Say hi.'', max_tokens = 10\<rparr>) wc) = Inr outs \<and>
        fst (batch_decode (stub_lib False) (tokenizer d)
              (remove_input_prompt (input_ids (stub_lib False) inputs) outs) True wd) = Inr (decoded # rest) \<and>
        (JObj [(''answer'', JStr (py ''Hi!''))] :: real json) = JObj [(''answer'', JStr (strip decoded))]) \<and>
   (0::nat) < length [[1::int, 2]] \<and> (0::nat) < length [[1::int, 2, 3, 4]] \<and>
   remove_input_prompt [[1, 2]] [[1, 2, 3, 4]] ! 0 = [3, 4] \<and>
   generate (stub_lib False) 2 [map int (py ''You are concise.Say hi.'')]
       (query_kwargs \<lparr>system = py ''You are concise.'', user = py ''Say hi.'', max_tokens = 10\<rparr>)
       \<lparr>load_failures = 0, continuation = [72, 105, 33]\<rparr> =
     (Inr [map int (py ''You are concise.Say hi.'') @ [72, 105, 33]],
      \<lparr>load_failures = 0, continuation = [72, 105, 33]\<rparr>) \<and>
   batch_decode (stub_lib False) 3
       (remove_input_prompt (input_ids (stub_lib False) [map int (py ''You are concise.Say hi.'')])
          [map int (py ''You are concise.Say hi.'') @ [72, 105, 33]]) True
       \<lparr>load_failures = 0, continuation = [72, 105, 33]\<rparr> =
     (Inr [py ''Hi!''], \<lparr>load_failures = 0, continuation = [72, 105, 33]\<rparr>)"
proof -
  let ?L = "stub_lib False"
  let ?r = "\<lparr>system = py ''You are concise.'', user = py ''Say hi.'', max_tokens = 10\<rparr>"
  let ?s = "loaded_state [72, 105, 33]"
  let ?w = "\<lparr>load_failures = 0, continuation = [72, 105, 33]\<rparr>"
  let ?ld = "\<lparr>model = 2 :: nat, tokenizer = 3 :: nat\<rparr>"
  let ?rt = "py ''You are concise.Say hi.''"
  let ?P = "JObj [(''answer'', JStr (py ''Hi!''))] :: real json"
  have f1: "import_torch ?L (world ?s) = (None, ?w)"
    by (simp add: stub_lib_def loaded_state_def stub_state_def initial_def)
  have f2: "get_llm_model ?L (?s\<lparr>world := ?w\<rparr>) = (Inr (Some ?ld), ?s)"
    by (simp add: get_llm_model_def loaded_state_def stub_state_def initial_def)
  have f3: "apply_chat_template ?L (tokenizer ?ld) (messages ?r) False True (world ?s) = (Inr ?rt, ?w)"
    by (simp add: stub_lib_def messages_def loaded_state_def stub_state_def initial_def py_def)
  have f4: "tokenizer_call ?L (tokenizer ?ld) [?rt] ?w = (Inr [map int ?rt], ?w)"
    by (simp add: stub_lib_def)
  have f5: "generate ?L (model ?ld) [map int ?rt] (query_kwargs ?r) ?w =
      (Inr [map int ?rt @ [72, 105, 33]], ?w)"
    by (simp add: stub_lib_def stub_generate_def query_kwargs_def)
  have f6: "batch_decode ?L (tokenizer ?ld)
      (remove_input_prompt (input_ids ?L [map int ?rt]) [map int ?rt @ [72, 105, 33]]) True ?w =
      (Inr (py ''Hi!'' # []), ?w)"
    by (simp add: stub_lib_def remove_input_prompt_def py_def)
  have k: "(0::nat) < length [[1::int, 2]] \<and> (0::nat) < length [[1::int, 2, 3, 4]]" by simp
  have st: "strip (py ''Hi!'') = py ''Hi!''"
    by (simp add: strip_def py_isspace_def py_def)
  have sw: "?s\<lparr>world := ?w\<rparr> = ?s"
    by (simp add: loaded_state_def stub_state_def initial_def)
  note T = query_strips_input_tokens [where L = ?L and s = ?s and req = ?r and p = ?P and s' = ?s
      and ids = "[1, 2]" and new = "[3, 4]"
      and k = 0 and ins = "[[1, 2]]" and outs' = "[[1, 2, 3, 4]]"
      and va = ?w and ld = ?ld and sb = ?s and rt = ?rt
      and vc = ?w and mi = "[map int ?rt]" and vd = ?w and gi = "[map int ?rt @ [72, 105, 33]]"
      and ve = ?w and ans = "py ''Hi!''" and others = "[]" and vf = ?w]
  from T f1 f2 f3 f4 f5 f6
  have "query ?L ?r ?s = (Inr (JObj [(''answer'', JStr (strip (py ''Hi!'')))]), ?s\<lparr>world := ?w\<rparr>)"
    by blast
  then have q: "query ?L ?r ?s = (Inr ?P, ?s)"
    by (simp only: st sw)
  from T q
  have ex: "\<exists>(d :: (nat, nat) llm_data) inputs outs decoded rest wc wd.
        fst (generate ?L (model d) inputs (query_kwargs ?r) wc) = Inr outs \<and>
        fst (batch_decode ?L (tokenizer d) (remove_input_prompt (input_ids ?L inputs) outs) True wd) = Inr (decoded # rest) \<and>
        ?P = JObj [(''answer'', JStr (strip decoded))]"
    by blast
  from T k
  have "remove_input_prompt [[1, 2]] [[1, 2, 3, 4]] ! 0 = drop (length ([[1, 2 :: int]] ! 0)) ([[1, 2, 3, 4]] ! 0)"
    by blast
  then have n: "remove_input_prompt [[1, 2]] [[1, 2, 3, 4]] ! 0 = [3, 4]" by simp
  from f5 have g: "generate ?L 2 [map int ?rt] (query_kwargs ?r) ?w = (Inr [map int ?rt @ [72, 105, 33]], ?w)"
    by simp
  from f6 have b: "batch_decode ?L 3
      (remove_input_prompt (input_ids ?L [map int ?rt]) [map int ?rt @ [72, 105, 33]]) True ?w =
      (Inr [py ''Hi!''], ?w)" by simp
  from q ex k n g b show ?thesis by blast
qed

text \<open>
  C5, as the code has it. With \<^verbatim>\<open>max_tokens = 0\<close> the handler passes the budget 0
  to \<^verbatim>\<open>generate\<close> as it is and has no case of its own for it. When the calls before
  \<^verbatim>\<open>generate\<close> return and \<^verbatim>\<open>generate\<close>, called with \<^verbatim>\<open>max_new_tokens = 0\<close> and
  \<^verbatim>\<open>temperature = 0.2\<close>, raises an exception, \<^verbatim>\<open>query\<close> raises that same
  exception; when it returns, the answer is the trimmed decoding of what it returned
  with the input tokens dropped, which is a list of empty token sequences when
  \<^verbatim>\<open>generate\<close> returned the input tokens only. The result depends on
  \<^verbatim>\<open>generate\<close> only through its value at that budget.
\<close>

theorem query_zero_budget:
  fixes L :: "('w, 'e, 'm, 't, 'i, 'f) lib"
  shows "max_tokens req = 0 \<longrightarrow>
     (import_torch L (world s) = (None, va) \<and>
         get_llm_model L (s\<lparr>world := va\<rparr>) = (Inr (Some ld), sb) \<and>
         apply_chat_template L (tokenizer ld) (messages req) False True (world sb) = (Inr rt, vc) \<and>
         tokenizer_call L (tokenizer ld) [rt] vc = (Inr mi, vd) \<and>
         generate L (model ld) mi \<lparr>max_new_tokens = 0, temperature = 2 / 10\<rparr> vd = (Inl e, ve) \<longrightarrow>
        query L req s = (Inl e, sb\<lparr>world := ve\<rparr>)) \<and>
     (import_torch L (world s) = (None, va) \<and>
         get_llm_model L (s\<lparr>world := va\<rparr>) = (Inr (Some ld), sb) \<and>
         apply_chat_template L (tokenizer ld) (messages req) False True (world sb) = (Inr rt, vc) \<and>
         tokenizer_call L (tokenizer ld) [rt] vc = (Inr mi, vd) \<and>
         generate L (model ld) mi \<lparr>max_new_tokens = 0, temperature = 2 / 10\<rparr> vd = (Inr gi, ve) \<and>
         batch_decode L (tokenizer ld) (remove_input_prompt (input_ids L mi) gi) True ve = (Inr (ans # others), vf) \<longrightarrow>
        query L req s = (Inr (JObj [(''answer'', JStr (strip ans))]), sb\<lparr>world := vf\<rparr>)) \<and>
     ((\<forall>m i w. g m i \<lparr>max_new_tokens = 0, temperature = 2 / 10\<rparr> w =
          generate L m i \<lparr>max_new_tokens = 0, temperature = 2 / 10\<rparr> w) \<longrightarrow>
        query (L\<lparr>generate := g\<rparr>) req s = query L req s) \<and>
     ((\<forall>m i w. \<exists>e. fst (generate L m i \<lparr>max_new_tokens = 0, temperature = 2 / 10\<rparr> w) = Inl e) \<longrightarrow>
        (\<exists>e. fst (query L req s) = Inl e)) \<and>
     (query L req s = (Inr p, s') \<longrightarrow>
        (\<exists>(d :: ('m, 't) llm_data) inputs outs decoded rest wc wd.
           fst (generate L (model d) inputs \<lparr>max_new_tokens = 0, temperature = 2 / 10\<rparr> wc) = Inr outs \<and>
           fst (batch_decode L (tokenizer d) (remove_input_prompt (input_ids L inputs) outs) True wd) = Inr (decoded # rest) \<and>
           p = JObj [(''answer'', JStr (strip decoded))] \<and>
           (outs = input_ids L inputs \<longrightarrow>
              remove_input_prompt (input_ids L inputs) outs = map (\<lambda>_. []) outs)))"
proof
  assume z: "max_tokens req = 0"
  then have k: "query_kwargs req = \<lparr>max_new_tokens = 0, temperature = 2 / 10\<rparr>"
    by (simp add: query_kwargs_def)
  have a: "(\<forall>m i w. g m i \<lparr>max_new_tokens = 0, temperature = 2 / 10\<rparr> w =
          generate L m i \<lparr>max_new_tokens = 0, temperature = 2 / 10\<rparr> w) \<longrightarrow>
        query (L\<lparr>generate := g\<rparr>) req s = query L req s"
    using query_generate_cong [of g req L s] k by simp
  have b: "(\<forall>m i w. \<exists>e. fst (generate L m i \<lparr>max_new_tokens = 0, temperature = 2 / 10\<rparr> w) = Inl e) \<longrightarrow>
        (\<exists>e. fst (query L req s) = Inl e)"
    using query_generate_raises [of L req s] k by simp
  have c: "query L req s = (Inr p, s') \<longrightarrow>
        (\<exists>(d :: ('m, 't) llm_data) inputs outs decoded rest wc wd.
           fst (generate L (model d) inputs \<lparr>max_new_tokens = 0, temperature = 2 / 10\<rparr> wc) = Inr outs \<and>
           fst (batch_decode L (tokenizer d) (remove_input_prompt (input_ids L inputs) outs) True wd) = Inr (decoded # rest) \<and>
           p = JObj [(''answer'', JStr (strip decoded))] \<and>
           (outs = input_ids L inputs \<longrightarrow>
              remove_input_prompt (input_ids L inputs) outs = map (\<lambda>_. []) outs))"
  proof
    assume "query L req s = (Inr p, s')"
    from query_success [OF this] obtain d :: "('m, 't) llm_data" and inputs outs decoded rest wc wd where
      "fst (generate L (model d) inputs (query_kwargs req) wc) = Inr outs"
      "fst (batch_decode L (tokenizer d) (remove_input_prompt (input_ids L inputs) outs) True wd) = Inr (decoded # rest)"
      "p = JObj [(''answer'', JStr (strip decoded))]"
      by (elim exE conjE) blast
    moreover have "outs = input_ids L inputs \<longrightarrow>
        remove_input_prompt (input_ids L inputs) outs = map (\<lambda>_. []) outs"
      by (simp add: remove_input_prompt_same)
    ultimately show "\<exists>(d :: ('m, 't) llm_data) inputs outs decoded rest wc wd.
           fst (generate L (model d) inputs \<lparr>max_new_tokens = 0, temperature = 2 / 10\<rparr> wc) = Inr outs \<and>
           fst (batch_decode L (tokenizer d) (remove_input_prompt (input_ids L inputs) outs) True wd) = Inr (decoded # rest) \<and>
           p = JObj [(''answer'', JStr (strip decoded))] \<and>
           (outs = input_ids L inputs \<longrightarrow>
              remove_input_prompt (input_ids L inputs) outs = map (\<lambda>_. []) outs)"
      unfolding k by blast
  qed
  have r: "import_torch L (world s) = (None, va) \<and>
         get_llm_model L (s\<lparr>world := va\<rparr>) = (Inr (Some ld), sb) \<and>
         apply_chat_template L (tokenizer ld) (messages req) False True (world sb) = (Inr rt, vc) \<and>
         tokenizer_call L (tokenizer ld) [rt] vc = (Inr mi, vd) \<and>
         generate L (model ld) mi \<lparr>max_new_tokens = 0, temperature = 2 / 10\<rparr> vd = (Inl e, ve) \<longrightarrow>
        query L req s = (Inl e, sb\<lparr>world := ve\<rparr>)"
    using query_generate_raise [where L = L and s = s and wa = va and ld = ld and sb = sb and req = req
        and rt = rt and wc = vc and mi = mi and wd = vd and e = e and we = ve] k by simp
  have t: "import_torch L (world s) = (None, va) \<and>
         get_llm_model L (s\<lparr>world := va\<rparr>) = (Inr (Some ld), sb) \<and>
         apply_chat_template L (tokenizer ld) (messages req) False True (world sb) = (Inr rt, vc) \<and>
         tokenizer_call L (tokenizer ld) [rt] vc = (Inr mi, vd) \<and>
         generate L (model ld) mi \<lparr>max_new_tokens = 0, temperature = 2 / 10\<rparr> vd = (Inr gi, ve) \<and>
         batch_decode L (tokenizer ld) (remove_input_prompt (input_ids L mi) gi) True ve = (Inr (ans # others), vf) \<longrightarrow>
        query L req s = (Inr (JObj [(''answer'', JStr (strip ans))]), sb\<lparr>world := vf\<rparr>)"
    using query_generate_return [where L = L and s = s and wa = va and ld = ld and sb = sb and req = req
        and rt = rt and wc = vc and mi = mi and wd = vd and gi = gi and we = ve and ans = ans
        and others = others and wg = vf] k by simp
  from r t a b c show "(import_torch L (world s) = (None, va) \<and>
         get_llm_model L (s\<lparr>world := va\<rparr>) = (Inr (Some ld), sb) \<and>
         apply_chat_template L (tokenizer ld) (messages req) False True (world sb) = (Inr rt, vc) \<and>
         tokenizer_call L (tokenizer ld) [rt] vc = (Inr mi, vd) \<and>
         generate L (model ld) mi \<lparr>max_new_tokens = 0, temperature = 2 / 10\<rparr> vd = (Inl e, ve) \<longrightarrow>
        query L req s = (Inl e, sb\<lparr>world := ve\<rparr>)) \<and>
     (import_torch L (world s) = (None, va) \<and>
         get_llm_model L (s\<lparr>world := va\<rparr>) = (Inr (Some ld), sb) \<and>
         apply_chat_template L (tokenizer ld) (messages req) False True (world sb) = (Inr rt, vc) \<and>
         tokenizer_call L (tokenizer ld) [rt] vc = (Inr mi, vd) \<and>
         generate L (model ld) mi \<lparr>max_new_tokens = 0, temperature = 2 / 10\<rparr> vd = (Inr gi, ve) \<and>
         batch_decode L (tokenizer ld) (remove_input_prompt (input_ids L mi) gi) True ve = (Inr (ans # others), vf) \<longrightarrow>
        query L req s = (Inr (JObj [(''answer'', JStr (strip ans))]), sb\<lparr>world := vf\<rparr>)) \<and>
     ((\<forall>m i w. g m i \<lparr>max_new_tokens = 0, temperature = 2 / 10\<rparr> w =
          generate L m i \<lparr>max_new_tokens = 0, temperature = 2 / 10\<rparr> w) \<longrightarrow>
        query (L\<lparr>generate := g\<rparr>) req s = query L req s) \<and>
     ((\<forall>m i w. \<exists>e. fst (generate L m i \<lparr>max_new_tokens = 0, temperature = 2 / 10\<rparr> w) = Inl e) \<longrightarrow>
        (\<exists>e. fst (query L req s) = Inl e)) \<and>
     (query L req s = (Inr p, s') \<longrightarrow>
        (\<exists>(d :: ('m, 't) llm_data) inputs outs decoded rest wc wd.
           fst (generate L (model d) inputs \<lparr>max_new_tokens = 0, temperature = 2 / 10\<rparr> wc) = Inr outs \<and>
           fst (batch_decode L (tokenizer d) (remove_input_prompt (input_ids L inputs) outs) True wd) = Inr (decoded # rest) \<and>
           p = JObj [(''answer'', JStr (strip decoded))] \<and>
           (outs = input_ids L inputs \<longrightarrow>
              remove_input_prompt (input_ids L inputs) outs = map (\<lambda>_. []) outs)))"
    by (intro conjI)
qed


theorem query_zero_budget_counterexample:
  "fst (query (stub_lib True) \<lparr>system = py ''You are concise.'', user = py ''Say hi.'', max_tokens = 0\<rparr>
         (stub_state 0 [72, 105, 33])) =
   Inl (PyException (py ''max_new_tokens must be greater than 0''))"
  by (simp add: query_eval)


theorem query_zero_budget_witness:
  "max_tokens \<lparr>system = py ''You are concise.'', user = py ''Say hi.'', max_tokens = 0\<rparr> = 0 \<and>
   generate (stub_lib True) 2 [map int (py ''You are concise.Say hi.'')] \<lparr>max_new_tokens = 0, temperature = 2 / 10\<rparr>
       \<lparr>load_failures = 0, continuation = [72, 105, 33]\<rparr> =
     (Inl (PyException (py ''max_new_tokens must be greater than 0'')),
      \<lparr>load_failures = 0, continuation = [72, 105, 33]\<rparr>) \<and>
   query (stub_lib True) \<lparr>system = py ''You are concise.'', user = py ''Say hi.'', max_tokens = 0\<rparr>
       (loaded_state [72, 105, 33]) =
     (Inl (PyException (py ''max_new_tokens must be greater than 0'')), loaded_state [72, 105, 33]) \<and>
   generate (stub_lib False) 2 [map int (py ''You are concise.Say hi.'')] \<lparr>max_new_tokens = 0, temperature = 2 / 10\<rparr>
       \<lparr>load_failures = 0, continuation = [72, 105, 33]\<rparr> =
     (Inr [map int (py ''You are concise.Say hi.'')], \<lparr>load_failures = 0, continuation = [72, 105, 33]\<rparr>) \<and>
   query (stub_lib False) \<lparr>system = py ''You are concise.'', user = py ''Say hi.'', max_tokens = 0\<rparr>
       (loaded_state [72, 105, 33]) =
     (Inr (JObj [(''answer'', JStr [])]), loaded_state [72, 105, 33]) \<and>
   (\<forall>m i w. stub_generate False m i (\<lparr>max_new_tokens = 0, temperature = 2 / 10\<rparr>\<lparr>temperature := 1\<rparr>) w =
        generate (stub_lib False) m i \<lparr>max_new_tokens = 0, temperature = 2 / 10\<rparr> w) \<and>
   query ((stub_lib False)\<lparr>generate := (\<lambda>m i kw. stub_generate False m i (kw\<lparr>temperature := 1\<rparr>))\<rparr>)
       \<lparr>system = py ''You are concise.'', user = py ''Say hi.'', max_tokens = 0\<rparr> (loaded_state [72, 105, 33]) =
     query (stub_lib False)
       \<lparr>system = py ''You are concise.'', user = py ''Say hi.'', max_tokens = 0\<rparr> (loaded_state [72, 105, 33]) \<and>
   (\<forall>m i w. \<exists>e. fst (generate (stub_lib True) m i \<lparr>max_new_tokens = 0, temperature = 2 / 10\<rparr> w) = Inl e) \<and>
   (\<exists>e. fst (query (stub_lib True) \<lparr>system = py ''You are concise.'', user = py ''Say hi.'', max_tokens = 0\<rparr>
         (loaded_state [72, 105, 33])) = Inl e) \<and>
   (\<exists>decoded. (JObj [(''answer'', JStr [])] :: real json) = JObj [(''answer'', JStr (strip decoded))])"
proof -
  let ?r = "\<lparr>system = py ''You are concise.'', user = py ''Say hi.'', max_tokens = 0\<rparr>"
  let ?s = "loaded_state [72, 105, 33]"
  let ?w = "\<lparr>load_failures = 0, continuation = [72, 105, 33]\<rparr>"
  let ?ld = "\<lparr>model = 2 :: nat, tokenizer = 3 :: nat\<rparr>"
  let ?rt = "py ''You are concise.Say hi.''"
  let ?g = "\<lambda>m i kw. stub_generate False m i (kw\<lparr>temperature := 1\<rparr>)"
  let ?k = "\<lparr>max_new_tokens = 0, temperature = 2 / 10\<rparr>"
  let ?x = "PyException (py ''max_new_tokens must be greater than 0'')"
  let ?P = "JObj [(''answer'', JStr [])] :: real json"
  have h0: "max_tokens ?r = 0" by simp
  have sw: "?s\<lparr>world := ?w\<rparr> = ?s"
    by (simp add: loaded_state_def stub_state_def initial_def)
  have f1: "import_torch (stub_lib b) (world ?s) = (None, ?w)" for b
    by (simp add: stub_lib_def loaded_state_def stub_state_def initial_def)
  have f2: "get_llm_model (stub_lib b) (?s\<lparr>world := ?w\<rparr>) = (Inr (Some ?ld), ?s)" for b
    by (simp add: get_llm_model_def loaded_state_def stub_state_def initial_def)
  have f3: "apply_chat_template (stub_lib b) (tokenizer ?ld) (messages ?r) False True (world ?s) = (Inr ?rt, ?w)" for b
    by (simp add: stub_lib_def messages_def loaded_state_def stub_state_def initial_def py_def)
  have f4: "tokenizer_call (stub_lib b) (tokenizer ?ld) [?rt] ?w = (Inr [map int ?rt], ?w)" for b
    by (simp add: stub_lib_def)
  have g1: "generate (stub_lib True) (model ?ld) [map int ?rt] ?k ?w = (Inl ?x, ?w)"
    by (simp add: stub_lib_def stub_generate_def)
  have g0: "generate (stub_lib False) (model ?ld) [map int ?rt] ?k ?w = (Inr [map int ?rt], ?w)"
    by (simp add: stub_lib_def stub_generate_def)
  have d0: "batch_decode (stub_lib False) (tokenizer ?ld)
      (remove_input_prompt (input_ids (stub_lib False) [map int ?rt]) [map int ?rt]) True ?w = (Inr ([] # []), ?w)"
    by (simp add: stub_lib_def remove_input_prompt_def)
  have h1: "\<forall>m i w. ?g m i ?k w = generate (stub_lib False) m i ?k w"
    by (simp add: stub_lib_def stub_generate_def)
  have h2: "\<forall>m i w. \<exists>e. fst (generate (stub_lib True) m i ?k w) = Inl e"
    by (simp add: stub_lib_def stub_generate_def)
  note T1 = query_zero_budget [where L = "stub_lib True" and req = ?r and s = ?s and g = "stub_generate True"
      and p = ?P and s' = ?s and va = ?w and ld = ?ld and sb = ?s and rt = ?rt and vc = ?w
      and mi = "[map int ?rt]" and vd = ?w and e = ?x and ve = ?w and gi = "[map int ?rt]"
      and ans = "[]" and others = "[]" and vf = ?w]
  note T0 = query_zero_budget [where L = "stub_lib False" and req = ?r and s = ?s and g = ?g
      and p = ?P and s' = ?s and va = ?w and ld = ?ld and sb = ?s and rt = ?rt and vc = ?w
      and mi = "[map int ?rt]" and vd = ?w and e = ?x and ve = ?w and gi = "[map int ?rt]"
      and ans = "[]" and others = "[]" and vf = ?w]
  from T1 h0 f1 [of True] f2 [of True] f3 [of True] f4 [of True] g1
  have "query (stub_lib True) ?r ?s = (Inl ?x, ?s\<lparr>world := ?w\<rparr>)" by blast
  then have c1: "query (stub_lib True) ?r ?s = (Inl ?x, ?s)" by (simp only: sw)
  from T0 h0 f1 [of False] f2 [of False] f3 [of False] f4 [of False] g0 d0
  have "query (stub_lib False) ?r ?s = (Inr (JObj [(''answer'', JStr (strip []))]), ?s\<lparr>world := ?w\<rparr>)"
    by blast
  then have c0: "query (stub_lib False) ?r ?s = (Inr ?P, ?s)"
    by (simp only: sw) (simp add: strip_def)
  from T0 h0 h1 have c2: "query ((stub_lib False)\<lparr>generate := ?g\<rparr>) ?r ?s = query (stub_lib False) ?r ?s"
    by blast
  from T1 h0 h2 have c3: "\<exists>e. fst (query (stub_lib True) ?r ?s) = Inl e" by blast
  from T0 h0 c0 have c4: "\<exists>decoded. ?P = JObj [(''answer'', JStr (strip decoded))]" by blast
  from g1 have g1': "generate (stub_lib True) 2 [map int ?rt] ?k ?w = (Inl ?x, ?w)" by simp
  from g0 have g0': "generate (stub_lib False) 2 [map int ?rt] ?k ?w = (Inr [map int ?rt], ?w)" by simp
  from h0 g1' c1 g0' c0 h1 c2 h2 c3 c4 show ?thesis by simp
qed

section \<open>The embed handler\<close>

lemma embed_success:
  assumes "embed L req s = (Inr p, s')"
  shows "\<exists>m vec rest w.
           embed_model s' = Some m \<and> (embed_model s = None \<or> embed_model s = Some m) \<and>
           fst (encode L m [text' req] w) = Inr (vec # rest) \<and>
           p = JObj [(''embedding'', JArr (map JFloat vec))]"
proof -
  from assms obtain r s1 where 1: "get_embed_model L s = (Inr r, s1)"
    by (auto simp: embed_def bind_def split: prod.splits sum.splits)
  from get_embed_model_Inr [OF 1] obtain m where m: "r = Some m" "embed_model s1 = Some m" by auto
  have pre: "embed_model s = None \<or> embed_model s = Some m"
    using get_embed_model_keeps [OF 1] m by (auto simp: keeps_def)
  from assms 1 m obtain rows s2 where 2: "ext (encode L m [text' req]) s1 = (Inr rows, s2)"
    by (auto simp: embed_def bind_def split: prod.splits sum.splits)
  from assms 1 m 2 obtain vec rest where
    3: "rows = vec # rest" "p = JObj [(''embedding'', JArr (map JFloat vec))]" "s' = s2"
    by (auto simp: embed_def bind_def first_def raise_def return_def split: list.splits)
  have "embed_model s2 = Some m" using m(2) ext_keeps [OF 2] by (simp add: keeps_def)
  moreover from ext_world [OF 2] 3(1)
  have "fst (encode L m [text' req] (world s1)) = Inr (vec # rest)" by simp
  ultimately show ?thesis using pre 3(2,3) by blast
qed

text \<open>
  C7. If the embedding model gives vectors of the same lengths whenever it is asked to
  encode the same texts (whatever the state of the external world), then two calls of
  \<^verbatim>\<open>/embed\<close> with the same text that both return, with any requests served in
  between, return embeddings of the same length: the second call uses the handle that
  the first one left in the cache.
\<close>

theorem embed_same_dimension:
  "(\<forall>m ts w w' rows rows'.
       fst (encode L m ts w) = Inr rows \<and> fst (encode L m ts w') = Inr rows' \<longrightarrow>
       map length rows = map length rows') \<longrightarrow>
   embed L req s = (Inr p, sa) \<longrightarrow>
   embed L req (snd (run C L rqs sa)) = (Inr p', sb) \<longrightarrow>
   (\<exists>vec vec'. p = JObj [(''embedding'', JArr (map JFloat vec))] \<and>
               p' = JObj [(''embedding'', JArr (map JFloat vec'))] \<and>
               length vec = length vec')"
proof (intro impI)
  assume det: "\<forall>m ts w w' rows rows'.
       fst (encode L m ts w) = Inr rows \<and> fst (encode L m ts w') = Inr rows' \<longrightarrow>
       map length rows = map length rows'"
    and one: "embed L req s = (Inr p, sa)"
    and two: "embed L req (snd (run C L rqs sa)) = (Inr p', sb)"
  from embed_success [OF one] obtain m vec rest w where
    a: "embed_model sa = Some m" "fst (encode L m [text' req] w) = Inr (vec # rest)"
       "p = JObj [(''embedding'', JArr (map JFloat vec))]" by blast
  from a(1) have kept: "embed_model (snd (run C L rqs sa)) = Some m"
    using run_embed_model [of sa C L rqs] by simp
  from embed_success [OF two] kept obtain vec' rest' w' where
    b: "fst (encode L m [text' req] w') = Inr (vec' # rest')"
       "p' = JObj [(''embedding'', JArr (map JFloat vec'))]" by auto
  from det a(2) b(1) have "map length (vec # rest) = map length (vec' # rest')" by blast
  then have "length vec = length vec'" by simp
  with a(3) b(2) show "\<exists>vec vec'. p = JObj [(''embedding'', JArr (map JFloat vec))] \<and>
               p' = JObj [(''embedding'', JArr (map JFloat vec'))] \<and>
               length vec = length vec'" by blast
qed

lemmas embed_eval = embed_def stub_eval return_def raise_def first_def py_def

theorem embed_same_dimension_witness:
  "fst (embed (stub_lib False) \<lparr>text' = py ''hello world''\<rparr> (stub_state 0 [])) =
     Inr (JObj [(''embedding'', JArr [JFloat 11, JFloat 0, JFloat 1])]) \<and>
   fst (embed (stub_lib False) \<lparr>text' = py ''hello world''\<rparr>
         (snd (run (no_coercions :: real coercions) (stub_lib False) [GET_health]
            (snd (embed (stub_lib False) \<lparr>text' = py ''hello world''\<rparr> (stub_state 0 [])))))) =
     Inr (JObj [(''embedding'', JArr [JFloat 11, JFloat 0, JFloat 1])]) \<and>
   (\<exists>vec vec'. (JObj [(''embedding'', JArr [JFloat 11, JFloat 0, JFloat 1])] :: real json) =
                  JObj [(''embedding'', JArr (map JFloat vec))] \<and>
               (JObj [(''embedding'', JArr [JFloat 11, JFloat 0, JFloat 1])] :: real json) =
                  JObj [(''embedding'', JArr (map JFloat vec'))] \<and>
               length vec = length vec')"
proof -
  let ?L = "stub_lib False"
  let ?r = "\<lparr>text' = py ''hello world''\<rparr>"
  let ?P = "JObj [(''embedding'', JArr [JFloat 11, JFloat 0, JFloat 1])] :: real json"
  let ?e1 = "embed ?L ?r (stub_state 0 [])"
  let ?s2 = "snd (run (no_coercions :: real coercions) ?L [GET_health] (snd ?e1))"
  let ?e2 = "embed ?L ?r ?s2"
  have h0: "\<forall>m ts w w' rows rows'.
       fst (encode ?L m ts w) = Inr rows \<and> fst (encode ?L m ts w') = Inr rows' \<longrightarrow>
       map length rows = map length rows'"
    by (auto simp: stub_lib_def)
  have e1: "?e1 = (Inr ?P, (stub_state 0 [])\<lparr>embed_model := Some 1\<rparr>)"
    by (simp add: embed_eval)
  then have h1: "?e1 = (Inr ?P, snd ?e1)" by simp
  have s2: "?s2 = (stub_state 0 [])\<lparr>embed_model := Some 1\<rparr>"
    by (simp add: e1 serve_def respond_def health_def return_def)
  have "fst ?e2 = Inr ?P"
    unfolding s2 by (simp add: embed_eval)
  then have h2: "?e2 = (Inr ?P, snd ?e2)" by (simp add: prod_eq_iff)
  from embed_same_dimension [where L = ?L and req = ?r and s = "stub_state 0 []" and p = ?P
      and sa = "snd ?e1" and C = "no_coercions :: real coercions" and rqs = "[GET_health]"
      and p' = ?P and sb = "snd ?e2"] h0 h1 h2
  have c: "\<exists>vec vec'. ?P = JObj [(''embedding'', JArr (map JFloat vec))] \<and>
               ?P = JObj [(''embedding'', JArr (map JFloat vec'))] \<and> length vec = length vec'"
    by blast
  from h1 have f1: "fst ?e1 = Inr ?P" by (simp add: prod_eq_iff)
  from h2 have f2: "fst ?e2 = Inr ?P" by (simp add: prod_eq_iff)
  from f1 f2 c show ?thesis by blast
qed

section \<open>Request validation\<close>

lemma lookup_None: "lookup obj name = None \<longleftrightarrow> map_of obj name = None"
  by (simp add: lookup_def map_of_eq_None_iff)

lemma parse_QueryRequest_ok:
  assumes "lookup obj ''system'' = Some js" "as_str C js = Some sy"
    and "lookup obj ''user'' = Some ju" "as_str C ju = Some us"
    and "field (as_int C) (Some 256) obj ''max_tokens'' = Inr mt"
  shows "parse_QueryRequest C (JObj obj) = Inr \<lparr>system = sy, user = us, max_tokens = mt\<rparr>"
  using assms by (simp add: parse_QueryRequest_def field_def)

lemma status_respond: "status_code (fst (respond out)) \<noteq> 422"
  by (cases out) (auto simp: respond_def split: sum.splits)

lemma serve_query_parsed:
  "parse_QueryRequest C body = Inr req \<Longrightarrow> serve C L (POST_query body) s = respond (query L req s)"
  by (simp add: serve_def)

lemma serve_query_cong:
  assumes "parse_QueryRequest C body = Inr req"
    and "\<And>m i w. g m i (query_kwargs req) w = generate L m i (query_kwargs req) w"
  shows "serve C (L\<lparr>generate := g\<rparr>) (POST_query body) s = serve C L (POST_query body) s"
  using assms(1) query_generate_cong [of g req L s, OF assms(2)]
  by (simp add: serve_query_parsed)

text \<open>
  C8. A \<^verbatim>\<open>POST /embed\<close> whose body is a JSON object without the key \<^verbatim>\<open>text\<close>, or
  is not a JSON object at all, is answered with status 422, a client error; the state
  of the process (both cache slots, the output, the external world) is the one before
  the request, and the answer is the same whatever the libraries would do: no model is
  loaded and nothing is encoded.
\<close>

theorem embed_missing_text_rejected:
  "(map_of obj ''text'' = None \<longrightarrow>
      serve C L (POST_embed (JObj obj)) s = (Unprocessable (Missing ''text''), s) \<and>
      status_code (fst (serve C L (POST_embed (JObj obj)) s)) = 422 \<and>
      serve C L' (POST_embed (JObj obj)) s = serve C L (POST_embed (JObj obj)) s) \<and>
   ((\<forall>obj'. body \<noteq> JObj obj') \<longrightarrow>
      serve C L (POST_embed body) s = (Unprocessable NotAnObject, s) \<and>
      status_code (fst (serve C L (POST_embed body) s)) = 422)"
proof -
  have absent: "lookup obj ''text'' = None" if "map_of obj ''text'' = None"
    using that by (simp add: lookup_None)
  show ?thesis
    by (cases body) (auto simp: serve_def parse_EmbedRequest_def field_def absent)
qed

theorem embed_missing_text_rejected_witness:
  "map_of [(''txt'', JStr (py ''hello world'') :: real json)] ''text'' = None \<and>
   serve (no_coercions :: real coercions) (stub_lib False)
      (POST_embed (JObj [(''txt'', JStr (py ''hello world''))])) (stub_state 0 []) =
     (Unprocessable (Missing ''text''), stub_state 0 []) \<and>
   status_code (fst (serve (no_coercions :: real coercions) (stub_lib False)
      (POST_embed (JObj [(''txt'', JStr (py ''hello world''))])) (stub_state 0 []))) = 422 \<and>
   (\<forall>obj'. (JNull :: real json) \<noteq> JObj obj') \<and>
   serve (no_coercions :: real coercions) (stub_lib False) (POST_embed JNull) (stub_state 0 []) =
     (Unprocessable NotAnObject, stub_state 0 [])"
proof -
  let ?C = "no_coercions :: real coercions"
  have h1: "map_of [(''txt'', JStr (py ''hello world'') :: real json)] ''text'' = None" by simp
  have h2: "\<forall>obj'. (JNull :: real json) \<noteq> JObj obj'" by simp
  from embed_missing_text_rejected [where obj = "[(''txt'', JStr (py ''hello world''))]" and C = ?C
      and L = "stub_lib False" and L' = "stub_lib False" and s = "stub_state 0 []" and body = JNull] h1 h2
  show ?thesis by blast
qed

text \<open>
  C9. A \<^verbatim>\<open>POST /query\<close> whose body has valid \<^verbatim>\<open>system\<close> and \<^verbatim>\<open>user\<close> fields and
  no key \<^verbatim>\<open>max_tokens\<close> is accepted (its status is not 422), the request model holds
  \<^verbatim>\<open>max_tokens = 256\<close>, and the handler calls \<^verbatim>\<open>generate\<close> with
  \<^verbatim>\<open>max_new_tokens = 256\<close>: when the calls before it return, the response is the
  exception that \<^verbatim>\<open>generate\<close> raises at that budget (status 500), or the trimmed
  decoding of what it returns at that budget (status 200); and the response depends
  on \<^verbatim>\<open>generate\<close> only through its value at that budget.
\<close>

theorem query_default_max_tokens:
  "lookup obj ''max_tokens'' = None \<and>
   lookup obj ''system'' = Some js \<and> as_str C js = Some sy \<and>
   lookup obj ''user'' = Some ju \<and> as_str C ju = Some us \<longrightarrow>
     parse_QueryRequest C (JObj obj) = Inr \<lparr>system = sy, user = us, max_tokens = 256\<rparr> \<and>
     serve C L (POST_query (JObj obj)) s = respond (query L \<lparr>system = sy, user = us, max_tokens = 256\<rparr> s) \<and>
     status_code (fst (serve C L (POST_query (JObj obj)) s)) \<noteq> 422 \<and>
     query_kwargs \<lparr>system = sy, user = us, max_tokens = 256\<rparr> = \<lparr>max_new_tokens = 256, temperature = 2 / 10\<rparr> \<and>
     ((\<forall>m i w. g m i \<lparr>max_new_tokens = 256, temperature = 2 / 10\<rparr> w = generate L m i \<lparr>max_new_tokens = 256, temperature = 2 / 10\<rparr> w) \<longrightarrow>
        serve C (L\<lparr>generate := g\<rparr>) (POST_query (JObj obj)) s = serve C L (POST_query (JObj obj)) s) \<and>
     (import_torch L (world s) = (None, va) \<and>
       get_llm_model L (s\<lparr>world := va\<rparr>) = (Inr (Some ld), sb) \<and>
       apply_chat_template L (tokenizer ld) (messages \<lparr>system = sy, user = us, max_tokens = 256\<rparr>) False True (world sb) = (Inr rt, vc) \<and>
       tokenizer_call L (tokenizer ld) [rt] vc = (Inr mi, vd) \<and>
       generate L (model ld) mi \<lparr>max_new_tokens = 256, temperature = 2 / 10\<rparr> vd = (Inl e, ve) \<longrightarrow>
        serve C L (POST_query (JObj obj)) s = (InternalServerError e, sb\<lparr>world := ve\<rparr>)) \<and>
     (import_torch L (world s) = (None, va) \<and>
       get_llm_model L (s\<lparr>world := va\<rparr>) = (Inr (Some ld), sb) \<and>
       apply_chat_template L (tokenizer ld) (messages \<lparr>system = sy, user = us, max_tokens = 256\<rparr>) False True (world sb) = (Inr rt, vc) \<and>
       tokenizer_call L (tokenizer ld) [rt] vc = (Inr mi, vd) \<and>
       generate L (model ld) mi \<lparr>max_new_tokens = 256, temperature = 2 / 10\<rparr> vd = (Inr gi, ve) \<and>
       batch_decode L (tokenizer ld) (remove_input_prompt (input_ids L mi) gi) True ve = (Inr (ans # others), vf) \<longrightarrow>
        serve C L (POST_query (JObj obj)) s = (OK (JObj [(''answer'', JStr (strip ans))]), sb\<lparr>world := vf\<rparr>))"
proof (intro impI)
  let ?req = "\<lparr>system = sy, user = us, max_tokens = 256\<rparr>"
  assume a: "lookup obj ''max_tokens'' = None \<and>
   lookup obj ''system'' = Some js \<and> as_str C js = Some sy \<and>
   lookup obj ''user'' = Some ju \<and> as_str C ju = Some us"
  then have "field (as_int C) (Some 256) obj ''max_tokens'' = Inr 256"
    by (simp add: field_def)
  with a have p: "parse_QueryRequest C (JObj obj) = Inr ?req"
    by (simp add: parse_QueryRequest_ok)
  have k: "query_kwargs ?req = \<lparr>max_new_tokens = 256, temperature = 2 / 10\<rparr>"
    by (simp add: query_kwargs_def)
  have sv: "serve C L (POST_query (JObj obj)) s = respond (query L ?req s)"
    using p by (rule serve_query_parsed)
  have st: "status_code (fst (serve C L (POST_query (JObj obj)) s)) \<noteq> 422"
    unfolding sv by (rule status_respond)
  have cg: "(\<forall>m i w. g m i \<lparr>max_new_tokens = 256, temperature = 2 / 10\<rparr> w = generate L m i \<lparr>max_new_tokens = 256, temperature = 2 / 10\<rparr> w) \<longrightarrow>
        serve C (L\<lparr>generate := g\<rparr>) (POST_query (JObj obj)) s = serve C L (POST_query (JObj obj)) s"
    using serve_query_cong [OF p, of g L s] k by simp
  have r: "import_torch L (world s) = (None, va) \<and>
       get_llm_model L (s\<lparr>world := va\<rparr>) = (Inr (Some ld), sb) \<and>
       apply_chat_template L (tokenizer ld) (messages \<lparr>system = sy, user = us, max_tokens = 256\<rparr>) False True (world sb) = (Inr rt, vc) \<and>
       tokenizer_call L (tokenizer ld) [rt] vc = (Inr mi, vd) \<and>
       generate L (model ld) mi \<lparr>max_new_tokens = 256, temperature = 2 / 10\<rparr> vd = (Inl e, ve) \<longrightarrow>
        serve C L (POST_query (JObj obj)) s = (InternalServerError e, sb\<lparr>world := ve\<rparr>)"
    using query_generate_raise [where L = L and s = s and wa = va and ld = ld and sb = sb and req = ?req
        and rt = rt and wc = vc and mi = mi and wd = vd and e = e and we = ve] k
    by (simp add: sv respond_def)
  have t: "import_torch L (world s) = (None, va) \<and>
       get_llm_model L (s\<lparr>world := va\<rparr>) = (Inr (Some ld), sb) \<and>
       apply_chat_template L (tokenizer ld) (messages \<lparr>system = sy, user = us, max_tokens = 256\<rparr>) False True (world sb) = (Inr rt, vc) \<and>
       tokenizer_call L (tokenizer ld) [rt] vc = (Inr mi, vd) \<and>
       generate L (model ld) mi \<lparr>max_new_tokens = 256, temperature = 2 / 10\<rparr> vd = (Inr gi, ve) \<and>
       batch_decode L (tokenizer ld) (remove_input_prompt (input_ids L mi) gi) True ve = (Inr (ans # others), vf) \<longrightarrow>
        serve C L (POST_query (JObj obj)) s = (OK (JObj [(''answer'', JStr (strip ans))]), sb\<lparr>world := vf\<rparr>)"
    using query_generate_return [where L = L and s = s and wa = va and ld = ld and sb = sb and req = ?req
        and rt = rt and wc = vc and mi = mi and wd = vd and gi = gi and we = ve and ans = ans
        and others = others and wg = vf] k
    by (simp add: sv respond_def)
  from p sv st k cg r t show "parse_QueryRequest C (JObj obj) = Inr \<lparr>system = sy, user = us, max_tokens = 256\<rparr> \<and>
     serve C L (POST_query (JObj obj)) s = respond (query L \<lparr>system = sy, user = us, max_tokens = 256\<rparr> s) \<and>
     status_code (fst (serve C L (POST_query (JObj obj)) s)) \<noteq> 422 \<and>
     query_kwargs \<lparr>system = sy, user = us, max_tokens = 256\<rparr> = \<lparr>max_new_tokens = 256, temperature = 2 / 10\<rparr> \<and>
     ((\<forall>m i w. g m i \<lparr>max_new_tokens = 256, temperature = 2 / 10\<rparr> w = generate L m i \<lparr>max_new_tokens = 256, temperature = 2 / 10\<rparr> w) \<longrightarrow>
        serve C (L\<lparr>generate := g\<rparr>) (POST_query (JObj obj)) s = serve C L (POST_query (JObj obj)) s) \<and>
     (import_torch L (world s) = (None, va) \<and>
       get_llm_model L (s\<lparr>world := va\<rparr>) = (Inr (Some ld), sb) \<and>
       apply_chat_template L (tokenizer ld) (messages \<lparr>system = sy, user = us, max_tokens = 256\<rparr>) False True (world sb) = (Inr rt, vc) \<and>
       tokenizer_call L (tokenizer ld) [rt] vc = (Inr mi, vd) \<and>
       generate L (model ld) mi \<lparr>max_new_tokens = 256, temperature = 2 / 10\<rparr> vd = (Inl e, ve) \<longrightarrow>
        serve C L (POST_query (JObj obj)) s = (InternalServerError e, sb\<lparr>world := ve\<rparr>)) \<and>
     (import_torch L (world s) = (None, va) \<and>
       get_llm_model L (s\<lparr>world := va\<rparr>) = (Inr (Some ld), sb) \<and>
       apply_chat_template L (tokenizer ld) (messages \<lparr>system = sy, user = us, max_tokens = 256\<rparr>) False True (world sb) = (Inr rt, vc) \<and>
       tokenizer_call L (tokenizer ld) [rt] vc = (Inr mi, vd) \<and>
       generate L (model ld) mi \<lparr>max_new_tokens = 256, temperature = 2 / 10\<rparr> vd = (Inr gi, ve) \<and>
       batch_decode L (tokenizer ld) (remove_input_prompt (input_ids L mi) gi) True ve = (Inr (ans # others), vf) \<longrightarrow>
        serve C L (POST_query (JObj obj)) s = (OK (JObj [(''answer'', JStr (strip ans))]), sb\<lparr>world := vf\<rparr>))"
    by (intro conjI)
qed

theorem query_default_max_tokens_witness:
  "lookup ([(''system'', JStr (py ''You are concise.'')), (''user'', JStr (py ''Say hi.''))] :: (string \<times> real json) list) ''max_tokens'' = None \<and>
   lookup ([(''system'', JStr (py ''You are concise.'')), (''user'', JStr (py ''Say hi.''))] :: (string \<times> real json) list) ''system'' = Some (JStr (py ''You are concise.'')) \<and>
   lookup ([(''system'', JStr (py ''You are concise.'')), (''user'', JStr (py ''Say hi.''))] :: (string \<times> real json) list) ''user'' = Some (JStr (py ''Say hi.'')) \<and>
   parse_QueryRequest (no_coercions :: real coercions) (JObj [(''system'', JStr (py ''You are concise.'')), (''user'', JStr (py ''Say hi.''))]) =
     Inr \<lparr>system = py ''You are concise.'', user = py ''Say hi.'', max_tokens = 256\<rparr> \<and>
   generate budget_lib 2 [map int (py ''You are concise.Say hi.'')] \<lparr>max_new_tokens = 256, temperature = 2 / 10\<rparr>
       \<lparr>load_failures = 0, continuation = []\<rparr> =
     (Inr [map int (py ''You are concise.Say hi.'') @ [256]], \<lparr>load_failures = 0, continuation = []\<rparr>) \<and>
   serve (no_coercions :: real coercions) budget_lib (POST_query (JObj [(''system'', JStr (py ''You are concise.'')), (''user'', JStr (py ''Say hi.''))])) (loaded_state []) =
     (OK (JObj [(''answer'', JStr [256])]), loaded_state []) \<and>
   generate ((stub_lib False)\<lparr>generate := (\<lambda>m i kw w. (Inl offline, w))\<rparr>) 2
       [map int (py ''You are concise.Say hi.'')] \<lparr>max_new_tokens = 256, temperature = 2 / 10\<rparr>
       \<lparr>load_failures = 0, continuation = []\<rparr> =
     (Inl offline, \<lparr>load_failures = 0, continuation = []\<rparr>) \<and>
   serve (no_coercions :: real coercions) ((stub_lib False)\<lparr>generate := (\<lambda>m i kw w. (Inl offline, w))\<rparr>)
       (POST_query (JObj [(''system'', JStr (py ''You are concise.'')), (''user'', JStr (py ''Say hi.''))])) (loaded_state []) =
     (InternalServerError offline, loaded_state []) \<and>
   (\<forall>m i w. budget_generate m i (\<lparr>max_new_tokens = 256, temperature = 2 / 10\<rparr>\<lparr>temperature := 1\<rparr>) w =
        generate budget_lib m i \<lparr>max_new_tokens = 256, temperature = 2 / 10\<rparr> w) \<and>
   serve (no_coercions :: real coercions)
       (budget_lib\<lparr>generate := (\<lambda>m i kw. budget_generate m i (kw\<lparr>temperature := 1\<rparr>))\<rparr>)
       (POST_query (JObj [(''system'', JStr (py ''You are concise.'')), (''user'', JStr (py ''Say hi.''))])) (loaded_state []) =
     serve (no_coercions :: real coercions) budget_lib (POST_query (JObj [(''system'', JStr (py ''You are concise.'')), (''user'', JStr (py ''Say hi.''))])) (loaded_state [])"
proof -
  let ?obj = "[(''system'', JStr (py ''You are concise.'')), (''user'', JStr (py ''Say hi.''))] :: (string \<times> real json) list"
  let ?C = "no_coercions :: real coercions"
  let ?req = "\<lparr>system = py ''You are concise.'', user = py ''Say hi.'', max_tokens = 256\<rparr>"
  let ?s = "loaded_state []"
  let ?w = "\<lparr>load_failures = 0, continuation = []\<rparr>"
  let ?ld = "\<lparr>model = 2 :: nat, tokenizer = 3 :: nat\<rparr>"
  let ?rt = "py ''You are concise.Say hi.''"
  let ?k = "\<lparr>max_new_tokens = 256, temperature = 2 / 10\<rparr>"
  let ?F = "(stub_lib False)\<lparr>generate := (\<lambda>m i kw w. (Inl offline, w))\<rparr>"
  let ?g = "\<lambda>m i kw. budget_generate m i (kw\<lparr>temperature := 1\<rparr>)"
  have h: "lookup ([(''system'', JStr (py ''You are concise.'')), (''user'', JStr (py ''Say hi.''))] :: (string \<times> real json) list) ''max_tokens'' = None \<and>
   lookup ?obj ''system'' = Some (JStr (py ''You are concise.'')) \<and>
      as_str ?C (JStr (py ''You are concise.'')) = Some (py ''You are concise.'') \<and>
      lookup ?obj ''user'' = Some (JStr (py ''Say hi.'')) \<and>
      as_str ?C (JStr (py ''Say hi.'')) = Some (py ''Say hi.'')"
    by (simp add: as_str_def lookup_def)
  have sw: "?s\<lparr>world := ?w\<rparr> = ?s"
    by (simp add: loaded_state_def stub_state_def initial_def)
  have b1: "import_torch budget_lib (world ?s) = (None, ?w)"
    by (simp add: budget_lib_def stub_lib_def loaded_state_def stub_state_def initial_def)
  have b2: "get_llm_model budget_lib (?s\<lparr>world := ?w\<rparr>) = (Inr (Some ?ld), ?s)"
    by (simp add: get_llm_model_def loaded_state_def stub_state_def initial_def)
  have b3: "apply_chat_template budget_lib (tokenizer ?ld) (messages ?req) False True (world ?s) = (Inr ?rt, ?w)"
    by (simp add: budget_lib_def stub_lib_def messages_def loaded_state_def stub_state_def initial_def py_def)
  have b4: "tokenizer_call budget_lib (tokenizer ?ld) [?rt] ?w = (Inr [map int ?rt], ?w)"
    by (simp add: budget_lib_def stub_lib_def)
  have b5: "generate budget_lib (model ?ld) [map int ?rt] ?k ?w = (Inr [map int ?rt @ [256]], ?w)"
    by (simp add: budget_lib_def budget_generate_def)
  have b6: "batch_decode budget_lib (tokenizer ?ld)
      (remove_input_prompt (input_ids budget_lib [map int ?rt]) [map int ?rt @ [256]]) True ?w =
      (Inr ([256] # []), ?w)"
    by (simp add: budget_lib_def stub_lib_def remove_input_prompt_def)
  have f1: "import_torch ?F (world ?s) = (None, ?w)"
    by (simp add: stub_lib_def loaded_state_def stub_state_def initial_def)
  have f2: "get_llm_model ?F (?s\<lparr>world := ?w\<rparr>) = (Inr (Some ?ld), ?s)"
    by (simp add: get_llm_model_def loaded_state_def stub_state_def initial_def)
  have f3: "apply_chat_template ?F (tokenizer ?ld) (messages ?req) False True (world ?s) = (Inr ?rt, ?w)"
    by (simp add: stub_lib_def messages_def loaded_state_def stub_state_def initial_def py_def)
  have f4: "tokenizer_call ?F (tokenizer ?ld) [?rt] ?w = (Inr [map int ?rt], ?w)"
    by (simp add: stub_lib_def)
  have f5: "generate ?F (model ?ld) [map int ?rt] ?k ?w = (Inl offline, ?w)"
    by simp
  have hg: "\<forall>m i w. ?g m i ?k w = generate budget_lib m i ?k w"
    by (simp add: budget_lib_def budget_generate_def)
  have st: "strip [256] = [256]"
    by (simp add: strip_def py_isspace_def)
  note B = query_default_max_tokens [where obj = ?obj and C = ?C and js = "JStr (py ''You are concise.'')"
      and sy = "py ''You are concise.''" and ju = "JStr (py ''Say hi.'')" and us = "py ''Say hi.''"
      and L = budget_lib and s = ?s and g = ?g and va = ?w and ld = ?ld and sb = ?s and rt = ?rt
      and vc = ?w and mi = "[map int ?rt]" and vd = ?w and e = offline and ve = ?w
      and gi = "[map int ?rt @ [256]]" and ans = "[256]" and others = "[]" and vf = ?w]
  note F = query_default_max_tokens [where obj = ?obj and C = ?C and js = "JStr (py ''You are concise.'')"
      and sy = "py ''You are concise.''" and ju = "JStr (py ''Say hi.'')" and us = "py ''Say hi.''"
      and L = ?F and s = ?s and g = ?g and va = ?w and ld = ?ld and sb = ?s and rt = ?rt
      and vc = ?w and mi = "[map int ?rt]" and vd = ?w and e = offline and ve = ?w
      and gi = "[map int ?rt @ [256]]" and ans = "[256]" and others = "[]" and vf = ?w]
  from B h have p: "parse_QueryRequest ?C (JObj ?obj) = Inr ?req" by blast
  from B h b1 b2 b3 b4 b5 b6
  have "serve ?C budget_lib (POST_query (JObj ?obj)) ?s =
      (OK (JObj [(''answer'', JStr (strip [256]))]), ?s\<lparr>world := ?w\<rparr>)" by blast
  then have ok: "serve ?C budget_lib (POST_query (JObj ?obj)) ?s = (OK (JObj [(''answer'', JStr [256])]), ?s)"
    by (simp only: st sw)
  from F h f1 f2 f3 f4 f5
  have "serve ?C ?F (POST_query (JObj ?obj)) ?s = (InternalServerError offline, ?s\<lparr>world := ?w\<rparr>)" by blast
  then have er: "serve ?C ?F (POST_query (JObj ?obj)) ?s = (InternalServerError offline, ?s)"
    by (simp only: sw)
  from B h hg have cg: "serve ?C (budget_lib\<lparr>generate := ?g\<rparr>) (POST_query (JObj ?obj)) ?s =
      serve ?C budget_lib (POST_query (JObj ?obj)) ?s" by blast
  from b5 have b5': "generate budget_lib 2 [map int ?rt] ?k ?w = (Inr [map int ?rt @ [256]], ?w)" by simp
  from f5 have f5': "generate ?F 2 [map int ?rt] ?k ?w = (Inl offline, ?w)" by simp
  from h p b5' ok f5' er hg cg show ?thesis by blast
qed

text \<open>
  C10. A \<^verbatim>\<open>POST /query\<close> whose \<^verbatim>\<open>max_tokens\<close> is a negative integer \<open>n\<close> (with valid
  \<^verbatim>\<open>system\<close> and \<^verbatim>\<open>user\<close> fields) is accepted by the validation (its status is not
  422), the request model holds \<^verbatim>\<open>max_tokens = n\<close>, and the handler calls
  \<^verbatim>\<open>generate\<close> with \<^verbatim>\<open>max_new_tokens = n\<close>, unchanged: when the calls before it
  return, the response is the exception that \<^verbatim>\<open>generate\<close> raises at that budget
  (status 500), or the trimmed decoding of what it returns at that budget (status
  200); and the response depends on \<^verbatim>\<open>generate\<close> only through its value at that
  budget.
\<close>

theorem query_negative_max_tokens:
  "n < 0 \<and> lookup obj ''max_tokens'' = Some (JInt n) \<and>
   lookup obj ''system'' = Some js \<and> as_str C js = Some sy \<and>
   lookup obj ''user'' = Some ju \<and> as_str C ju = Some us \<longrightarrow>
     parse_QueryRequest C (JObj obj) = Inr \<lparr>system = sy, user = us, max_tokens = n\<rparr> \<and>
     serve C L (POST_query (JObj obj)) s = respond (query L \<lparr>system = sy, user = us, max_tokens = n\<rparr> s) \<and>
     status_code (fst (serve C L (POST_query (JObj obj)) s)) \<noteq> 422 \<and>
     query_kwargs \<lparr>system = sy, user = us, max_tokens = n\<rparr> = \<lparr>max_new_tokens = n, temperature = 2 / 10\<rparr> \<and>
     ((\<forall>m i w. g m i \<lparr>max_new_tokens = n, temperature = 2 / 10\<rparr> w = generate L m i \<lparr>max_new_tokens = n, temperature = 2 / 10\<rparr> w) \<longrightarrow>
        serve C (L\<lparr>generate := g\<rparr>) (POST_query (JObj obj)) s = serve C L (POST_query (JObj obj)) s) \<and>
     (import_torch L (world s) = (None, va) \<and>
       get_llm_model L (s\<lparr>world := va\<rparr>) = (Inr (Some ld), sb) \<and>
       apply_chat_template L (tokenizer ld) (messages \<lparr>system = sy, user = us, max_tokens = n\<rparr>) False True (world sb) = (Inr rt, vc) \<and>
       tokenizer_call L (tokenizer ld) [rt] vc = (Inr mi, vd) \<and>
       generate L (model ld) mi \<lparr>max_new_tokens = n, temperature = 2 / 10\<rparr> vd = (Inl e, ve) \<longrightarrow>
        serve C L (POST_query (JObj obj)) s = (InternalServerError e, sb\<lparr>world := ve\<rparr>)) \<and>
     (import_torch L (world s) = (None, va) \<and>
       get_llm_model L (s\<lparr>world := va\<rparr>) = (Inr (Some ld), sb) \<and>
       apply_chat_template L (tokenizer ld) (messages \<lparr>system = sy, user = us, max_tokens = n\<rparr>) False True (world sb) = (Inr rt, vc) \<and>
       tokenizer_call L (tokenizer ld) [rt] vc = (Inr mi, vd) \<and>
       generate L (model ld) mi \<lparr>max_new_tokens = n, temperature = 2 / 10\<rparr> vd = (Inr gi, ve) \<and>
       batch_decode L (tokenizer ld) (remove_input_prompt (input_ids L mi) gi) True ve = (Inr (ans # others), vf) \<longrightarrow>
        serve C L (POST_query (JObj obj)) s = (OK (JObj [(''answer'', JStr (strip ans))]), sb\<lparr>world := vf\<rparr>))"
proof (intro impI)
  let ?req = "\<lparr>system = sy, user = us, max_tokens = n\<rparr>"
  assume a: "n < 0 \<and> lookup obj ''max_tokens'' = Some (JInt n) \<and>
   lookup obj ''system'' = Some js \<and> as_str C js = Some sy \<and>
   lookup obj ''user'' = Some ju \<and> as_str C ju = Some us"
  then have "field (as_int C) (Some 256) obj ''max_tokens'' = Inr n"
    by (simp add: field_def as_int_def)
  with a have p: "parse_QueryRequest C (JObj obj) = Inr ?req"
    by (simp add: parse_QueryRequest_ok)
  have k: "query_kwargs ?req = \<lparr>max_new_tokens = n, temperature = 2 / 10\<rparr>"
    by (simp add: query_kwargs_def)
  have sv: "serve C L (POST_query (JObj obj)) s = respond (query L ?req s)"
    using p by (rule serve_query_parsed)
  have st: "status_code (fst (serve C L (POST_query (JObj obj)) s)) \<noteq> 422"
    unfolding sv by (rule status_respond)
  have cg: "(\<forall>m i w. g m i \<lparr>max_new_tokens = n, temperature = 2 / 10\<rparr> w = generate L m i \<lparr>max_new_tokens = n, temperature = 2 / 10\<rparr> w) \<longrightarrow>
        serve C (L\<lparr>generate := g\<rparr>) (POST_query (JObj obj)) s = serve C L (POST_query (JObj obj)) s"
    using serve_query_cong [OF p, of g L s] k by simp
  have r: "import_torch L (world s) = (None, va) \<and>
       get_llm_model L (s\<lparr>world := va\<rparr>) = (Inr (Some ld), sb) \<and>
       apply_chat_template L (tokenizer ld) (messages \<lparr>system = sy, user = us, max_tokens = n\<rparr>) False True (world sb) = (Inr rt, vc) \<and>
       tokenizer_call L (tokenizer ld) [rt] vc = (Inr mi, vd) \<and>
       generate L (model ld) mi \<lparr>max_new_tokens = n, temperature = 2 / 10\<rparr> vd = (Inl e, ve) \<longrightarrow>
        serve C L (POST_query (JObj obj)) s = (InternalServerError e, sb\<lparr>world := ve\<rparr>)"
    using query_generate_raise [where L = L and s = s and wa = va and ld = ld and sb = sb and req = ?req
        and rt = rt and wc = vc and mi = mi and wd = vd and e = e and we = ve] k
    by (simp add: sv respond_def)
  have t: "import_torch L (world s) = (None, va) \<and>
       get_llm_model L (s\<lparr>world := va\<rparr>) = (Inr (Some ld), sb) \<and>
       apply_chat_template L (tokenizer ld) (messages \<lparr>system = sy, user = us, max_tokens = n\<rparr>) False True (world sb) = (Inr rt, vc) \<and>
       tokenizer_call L (tokenizer ld) [rt] vc = (Inr mi, vd) \<and>
       generate L (model ld) mi \<lparr>max_new_tokens = n, temperature = 2 / 10\<rparr> vd = (Inr gi, ve) \<and>
       batch_decode L (tokenizer ld) (remove_input_prompt (input_ids L mi) gi) True ve = (Inr (ans # others), vf) \<longrightarrow>
        serve C L (POST_query (JObj obj)) s = (OK (JObj [(''answer'', JStr (strip ans))]), sb\<lparr>world := vf\<rparr>)"
    using query_generate_return [where L = L and s = s and wa = va and ld = ld and sb = sb and req = ?req
        and rt = rt and wc = vc and mi = mi and wd = vd and gi = gi and we = ve and ans = ans
        and others = others and wg = vf] k
    by (simp add: sv respond_def)
  from p sv st k cg r t show "parse_QueryRequest C (JObj obj) = Inr \<lparr>system = sy, user = us, max_tokens = n\<rparr> \<and>
     serve C L (POST_query (JObj obj)) s = respond (query L \<lparr>system = sy, user = us, max_tokens = n\<rparr> s) \<and>
     status_code (fst (serve C L (POST_query (JObj obj)) s)) \<noteq> 422 \<and>
     query_kwargs \<lparr>system = sy, user = us, max_tokens = n\<rparr> = \<lparr>max_new_tokens = n, temperature = 2 / 10\<rparr> \<and>
     ((\<forall>m i w. g m i \<lparr>max_new_tokens = n, temperature = 2 / 10\<rparr> w = generate L m i \<lparr>max_new_tokens = n, temperature = 2 / 10\<rparr> w) \<longrightarrow>
        serve C (L\<lparr>generate := g\<rparr>) (POST_query (JObj obj)) s = serve C L (POST_query (JObj obj)) s) \<and>
     (import_torch L (world s) = (None, va) \<and>
       get_llm_model L (s\<lparr>world := va\<rparr>) = (Inr (Some ld), sb) \<and>
       apply_chat_template L (tokenizer ld) (messages \<lparr>system = sy, user = us, max_tokens = n\<rparr>) False True (world sb) = (Inr rt, vc) \<and>
       tokenizer_call L (tokenizer ld) [rt] vc = (Inr mi, vd) \<and>
       generate L (model ld) mi \<lparr>max_new_tokens = n, temperature = 2 / 10\<rparr> vd = (Inl e, ve) \<longrightarrow>
        serve C L (POST_query (JObj obj)) s = (InternalServerError e, sb\<lparr>world := ve\<rparr>)) \<and>
     (import_torch L (world s) = (None, va) \<and>
       get_llm_model L (s\<lparr>world := va\<rparr>) = (Inr (Some ld), sb) \<and>
       apply_chat_template L (tokenizer ld) (messages \<lparr>system = sy, user = us, max_tokens = n\<rparr>) False True (world sb) = (Inr rt, vc) \<and>
       tokenizer_call L (tokenizer ld) [rt] vc = (Inr mi, vd) \<and>
       generate L (model ld) mi \<lparr>max_new_tokens = n, temperature = 2 / 10\<rparr> vd = (Inr gi, ve) \<and>
       batch_decode L (tokenizer ld) (remove_input_prompt (input_ids L mi) gi) True ve = (Inr (ans # others), vf) \<longrightarrow>
        serve C L (POST_query (JObj obj)) s = (OK (JObj [(''answer'', JStr (strip ans))]), sb\<lparr>world := vf\<rparr>))"
    by (intro conjI)
qed

theorem query_negative_max_tokens_witness:
  "(-5 :: int) < 0 \<and>
   lookup ([(''max_tokens'', JInt 7), (''system'', JStr (py ''You are concise.'')), (''user'', JStr (py ''Say hi.'')), (''max_tokens'', JInt (-5))] :: (string \<times> real json) list) ''max_tokens'' = Some (JInt (-5)) \<and>
   lookup ([(''max_tokens'', JInt 7), (''system'', JStr (py ''You are concise.'')), (''user'', JStr (py ''Say hi.'')), (''max_tokens'', JInt (-5))] :: (string \<times> real json) list) ''system'' = Some (JStr (py ''You are concise.'')) \<and>
   lookup ([(''max_tokens'', JInt 7), (''system'', JStr (py ''You are concise.'')), (''user'', JStr (py ''Say hi.'')), (''max_tokens'', JInt (-5))] :: (string \<times> real json) list) ''user'' = Some (JStr (py ''Say hi.'')) \<and>
   parse_QueryRequest (no_coercions :: real coercions) (JObj [(''max_tokens'', JInt 7), (''system'', JStr (py ''You are concise.'')), (''user'', JStr (py ''Say hi.'')), (''max_tokens'', JInt (-5))]) =
     Inr \<lparr>system = py ''You are concise.'', user = py ''Say hi.'', max_tokens = -5\<rparr> \<and>
   generate budget_lib 2 [map int (py ''You are concise.Say hi.'')] \<lparr>max_new_tokens = -5, temperature = 2 / 10\<rparr>
       \<lparr>load_failures = 0, continuation = []\<rparr> =
     (Inr [map int (py ''You are concise.Say hi.'') @ [5]], \<lparr>load_failures = 0, continuation = []\<rparr>) \<and>
   serve (no_coercions :: real coercions) budget_lib (POST_query (JObj [(''max_tokens'', JInt 7), (''system'', JStr (py ''You are concise.'')), (''user'', JStr (py ''Say hi.'')), (''max_tokens'', JInt (-5))])) (loaded_state []) =
     (OK (JObj [(''answer'', JStr [5])]), loaded_state []) \<and>
   generate ((stub_lib False)\<lparr>generate := (\<lambda>m i kw w. (Inl offline, w))\<rparr>) 2
       [map int (py ''You are concise.Say hi.'')] \<lparr>max_new_tokens = -5, temperature = 2 / 10\<rparr>
       \<lparr>load_failures = 0, continuation = []\<rparr> =
     (Inl offline, \<lparr>load_failures = 0, continuation = []\<rparr>) \<and>
   serve (no_coercions :: real coercions) ((stub_lib False)\<lparr>generate := (\<lambda>m i kw w. (Inl offline, w))\<rparr>)
       (POST_query (JObj [(''max_tokens'', JInt 7), (''system'', JStr (py ''You are concise.'')), (''user'', JStr (py ''Say hi.'')), (''max_tokens'', JInt (-5))])) (loaded_state []) =
     (InternalServerError offline, loaded_state []) \<and>
   (\<forall>m i w. budget_generate m i (\<lparr>max_new_tokens = -5, temperature = 2 / 10\<rparr>\<lparr>temperature := 1\<rparr>) w =
        generate budget_lib m i \<lparr>max_new_tokens = -5, temperature = 2 / 10\<rparr> w) \<and>
   serve (no_coercions :: real coercions)
       (budget_lib\<lparr>generate := (\<lambda>m i kw. budget_generate m i (kw\<lparr>temperature := 1\<rparr>))\<rparr>)
       (POST_query (JObj [(''max_tokens'', JInt 7), (''system'', JStr (py ''You are concise.'')), (''user'', JStr (py ''Say hi.'')), (''max_tokens'', JInt (-5))])) (loaded_state []) =
     serve (no_coercions :: real coercions) budget_lib (POST_query (JObj [(''max_tokens'', JInt 7), (''system'', JStr (py ''You are concise.'')), (''user'', JStr (py ''Say hi.'')), (''max_tokens'', JInt (-5))])) (loaded_state [])"
proof -
  let ?obj = "[(''max_tokens'', JInt 7), (''system'', JStr (py ''You are concise.'')), (''user'', JStr (py ''Say hi.'')), (''max_tokens'', JInt (-5))] :: (string \<times> real json) list"
  let ?C = "no_coercions :: real coercions"
  let ?req = "\<lparr>system = py ''You are concise.'', user = py ''Say hi.'', max_tokens = -5\<rparr>"
  let ?s = "loaded_state []"
  let ?w = "\<lparr>load_failures = 0, continuation = []\<rparr>"
  let ?ld = "\<lparr>model = 2 :: nat, tokenizer = 3 :: nat\<rparr>"
  let ?rt = "py ''You are concise.Say hi.''"
  let ?k = "\<lparr>max_new_tokens = -5, temperature = 2 / 10\<rparr>"
  let ?F = "(stub_lib False)\<lparr>generate := (\<lambda>m i kw w. (Inl offline, w))\<rparr>"
  let ?g = "\<lambda>m i kw. budget_generate m i (kw\<lparr>temperature := 1\<rparr>)"
  have h: "(-5 :: int) < 0 \<and>
   lookup ([(''max_tokens'', JInt 7), (''system'', JStr (py ''You are concise.'')), (''user'', JStr (py ''Say hi.'')), (''max_tokens'', JInt (-5))] :: (string \<times> real json) list) ''max_tokens'' = Some (JInt (-5)) \<and>
   lookup ?obj ''system'' = Some (JStr (py ''You are concise.'')) \<and>
      as_str ?C (JStr (py ''You are concise.'')) = Some (py ''You are concise.'') \<and>
      lookup ?obj ''user'' = Some (JStr (py ''Say hi.'')) \<and>
      as_str ?C (JStr (py ''Say hi.'')) = Some (py ''Say hi.'')"
    by (simp add: as_str_def lookup_def)
  have sw: "?s\<lparr>world := ?w\<rparr> = ?s"
    by (simp add: loaded_state_def stub_state_def initial_def)
  have b1: "import_torch budget_lib (world ?s) = (None, ?w)"
    by (simp add: budget_lib_def stub_lib_def loaded_state_def stub_state_def initial_def)
  have b2: "get_llm_model budget_lib (?s\<lparr>world := ?w\<rparr>) = (Inr (Some ?ld), ?s)"
    by (simp add: get_llm_model_def loaded_state_def stub_state_def initial_def)
  have b3: "apply_chat_template budget_lib (tokenizer ?ld) (messages ?req) False True (world ?s) = (Inr ?rt, ?w)"
    by (simp add: budget_lib_def stub_lib_def messages_def loaded_state_def stub_state_def initial_def py_def)
  have b4: "tokenizer_call budget_lib (tokenizer ?ld) [?rt] ?w = (Inr [map int ?rt], ?w)"
    by (simp add: budget_lib_def stub_lib_def)
  have b5: "generate budget_lib (model ?ld) [map int ?rt] ?k ?w = (Inr [map int ?rt @ [5]], ?w)"
    by (simp add: budget_lib_def budget_generate_def)
  have b6: "batch_decode budget_lib (tokenizer ?ld)
      (remove_input_prompt (input_ids budget_lib [map int ?rt]) [map int ?rt @ [5]]) True ?w =
      (Inr ([5] # []), ?w)"
    by (simp add: budget_lib_def stub_lib_def remove_input_prompt_def)
  have f1: "import_torch ?F (world ?s) = (None, ?w)"
    by (simp add: stub_lib_def loaded_state_def stub_state_def initial_def)
  have f2: "get_llm_model ?F (?s\<lparr>world := ?w\<rparr>) = (Inr (Some ?ld), ?s)"
    by (simp add: get_llm_model_def loaded_state_def stub_state_def initial_def)
  have f3: "apply_chat_template ?F (tokenizer ?ld) (messages ?req) False True (world ?s) = (Inr ?rt, ?w)"
    by (simp add: stub_lib_def messages_def loaded_state_def stub_state_def initial_def py_def)
  have f4: "tokenizer_call ?F (tokenizer ?ld) [?rt] ?w = (Inr [map int ?rt], ?w)"
    by (simp add: stub_lib_def)
  have f5: "generate ?F (model ?ld) [map int ?rt] ?k ?w = (Inl offline, ?w)"
    by simp
  have hg: "\<forall>m i w. ?g m i ?k w = generate budget_lib m i ?k w"
    by (simp add: budget_lib_def budget_generate_def)
  have st: "strip [5] = [5]"
    by (simp add: strip_def py_isspace_def)
  note B = query_negative_max_tokens [where n = "-5" and obj = ?obj and C = ?C and js = "JStr (py ''You are concise.'')"
      and sy = "py ''You are concise.''" and ju = "JStr (py ''Say hi.'')" and us = "py ''Say hi.''"
      and L = budget_lib and s = ?s and g = ?g and va = ?w and ld = ?ld and sb = ?s and rt = ?rt
      and vc = ?w and mi = "[map int ?rt]" and vd = ?w and e = offline and ve = ?w
      and gi = "[map int ?rt @ [5]]" and ans = "[5]" and others = "[]" and vf = ?w]
  note F = query_negative_max_tokens [where n = "-5" and obj = ?obj and C = ?C and js = "JStr (py ''You are concise.'')"
      and sy = "py ''You are concise.''" and ju = "JStr (py ''Say hi.'')" and us = "py ''Say hi.''"
      and L = ?F and s = ?s and g = ?g and va = ?w and ld = ?ld and sb = ?s and rt = ?rt
      and vc = ?w and mi = "[map int ?rt]" and vd = ?w and e = offline and ve = ?w
      and gi = "[map int ?rt @ [5]]" and ans = "[5]" and others = "[]" and vf = ?w]
  from B h have p: "parse_QueryRequest ?C (JObj ?obj) = Inr ?req" by blast
  from B h b1 b2 b3 b4 b5 b6
  have "serve ?C budget_lib (POST_query (JObj ?obj)) ?s =
      (OK (JObj [(''answer'', JStr (strip [5]))]), ?s\<lparr>world := ?w\<rparr>)" by blast
  then have ok: "serve ?C budget_lib (POST_query (JObj ?obj)) ?s = (OK (JObj [(''answer'', JStr [5])]), ?s)"
    by (simp only: st sw)
  from F h f1 f2 f3 f4 f5
  have "serve ?C ?F (POST_query (JObj ?obj)) ?s = (InternalServerError offline, ?s\<lparr>world := ?w\<rparr>)" by blast
  then have er: "serve ?C ?F (POST_query (JObj ?obj)) ?s = (InternalServerError offline, ?s)"
    by (simp only: sw)
  from B h hg have cg: "serve ?C (budget_lib\<lparr>generate := ?g\<rparr>) (POST_query (JObj ?obj)) ?s =
      serve ?C budget_lib (POST_query (JObj ?obj)) ?s" by blast
  from b5 have b5': "generate budget_lib 2 [map int ?rt] ?k ?w = (Inr [map int ?rt @ [5]], ?w)" by simp
  from f5 have f5': "generate ?F 2 [map int ?rt] ?k ?w = (Inl offline, ?w)" by simp
  from h p b5' ok f5' er hg cg show ?thesis by blast
qed

end
